theory Spec2Isabelle
  imports Complex_Main "HOL-Library.Word"
begin

section \<open>Strings and numbers of the collaborating libraries\<close>

text \<open>
  The tag reader works on three string types (\<^verbatim>\<open>QString\<close>, \<^verbatim>\<open>std::string\<close>,
  \<^verbatim>\<open>TagLib::String\<close>) and converts freely between them; all three are \<^typ>\<open>string\<close> here
  and the conversions are the identity. \<^verbatim>\<open>QByteArray\<close> and \<^verbatim>\<open>TagLib::ByteVector\<close> are
  lists of bytes, again \<^typ>\<open>string\<close>.
\<close>

type_synonym bytes = string

definition is_space :: "char \<Rightarrow> bool" where
  "is_space c = (c = CHR '' '' \<or> c = CHR 0x09 \<or> c = CHR 0x0A \<or> c = CHR 0x0B
                 \<or> c = CHR 0x0C \<or> c = CHR 0x0D)"

definition is_digit :: "char \<Rightarrow> bool" where
  "is_digit c = (48 \<le> (of_char c :: nat) \<and> (of_char c :: nat) \<le> 57)"

definition digit_val :: "char \<Rightarrow> int" where
  "digit_val c = int (of_char c) - 48"

definition dec_value :: "string \<Rightarrow> int" where
  "dec_value ds = foldl (\<lambda>a c. 10 * a + digit_val c) 0 ds"

definition trimmed :: "string \<Rightarrow> string" where
  \<comment> \<open>\<^verbatim>\<open>QString::trimmed\<close>: white space removed at both ends.\<close>
  "trimmed s = rev (dropWhile is_space (rev (dropWhile is_space s)))"

definition left :: "nat \<Rightarrow> string \<Rightarrow> string" where
  \<comment> \<open>\<^verbatim>\<open>QString::left(n)\<close> and \<^verbatim>\<open>TagLib::String::substr(0, n)\<close>.\<close>
  "left n s = take n s"

definition split_sign :: "string \<Rightarrow> bool \<times> string" where
  "split_sign s =
     (case s of
        [] \<Rightarrow> (False, [])
      | c # r \<Rightarrow> if c = CHR ''-'' then (True, r)
                 else if c = CHR ''+'' then (False, r) else (False, s))"

definition QString_toInt :: "string \<Rightarrow> int" where
  \<comment> \<open>\<^verbatim>\<open>QString::toInt()\<close>, base 10: the whole string, white space at the ends apart,
      must be an optionally signed decimal number that fits an \<^verbatim>\<open>int\<close>; 0 otherwise.\<close>
  "QString_toInt s =
     (let (neg, ds) = split_sign (trimmed s) in
      if ds = [] \<or> \<not> list_all is_digit ds then 0
      else let v = (if neg then - dec_value ds else dec_value ds) in
           if - (2 ^ 31) \<le> v \<and> v < 2 ^ 31 then v else 0)"

definition String_toInt :: "string \<Rightarrow> int" where
  \<comment> \<open>\<^verbatim>\<open>TagLib::String::toInt()\<close>: \<^verbatim>\<open>wcstol\<close> on the text, so the longest numeric
      prefix counts (0 when there is none), clamped to a \<^verbatim>\<open>long\<close> and cast to
      \<^verbatim>\<open>int\<close>.\<close>
  "String_toInt s =
     (let (neg, r) = split_sign (dropWhile is_space s);
          ds = takeWhile is_digit r;
          v = (if neg then - dec_value ds else dec_value ds);
          l = max (- (2 ^ 63)) (min (2 ^ 63 - 1) v)
      in sint (word_of_int l :: 32 word))"

definition digit_char :: "nat \<Rightarrow> char" where
  "digit_char n = ''0123456789'' ! n"

fun digits_fuel :: "nat \<Rightarrow> nat \<Rightarrow> string" where
  "digits_fuel 0 n = [digit_char (n mod 10)]"
| "digits_fuel (Suc k) n =
     (if n < 10 then [digit_char n] else digits_fuel k (n div 10) @ [digit_char (n mod 10)])"

definition digits :: "nat \<Rightarrow> string" where
  \<comment> \<open>The decimal digits of \<open>n\<close>; \<open>n\<close> steps are more than its number of digits.\<close>
  "digits n = digits_fuel n n"

definition number :: "int \<Rightarrow> string" where
  \<comment> \<open>\<^verbatim>\<open>QString::number\<close> and \<^verbatim>\<open>TagLib::String::number\<close> on an integer: its decimal text.\<close>
  "number i = (if i < 0 then CHR ''-'' # digits (nat (- i)) else digits (nat i))"

definition to_upper :: "char \<Rightarrow> char" where
  "to_upper c =
     (case map_of (zip ''abcdefghijklmnopqrstuvwxyz'' ''ABCDEFGHIJKLMNOPQRSTUVWXYZ'') c of
        Some u \<Rightarrow> u
      | None \<Rightarrow> c)"

definition upper :: "string \<Rightarrow> string" where
  \<comment> \<open>\<^verbatim>\<open>TagLib::String::upper\<close>, which the Xiph and APE tags apply to every key.\<close>
  "upper s = map to_upper s"

definition front :: "string list \<Rightarrow> string" where
  \<comment> \<open>\<^verbatim>\<open>front()\<close> of a TagLib list. TagLib keeps no empty value list under a key of a
      parsed tag; the empty text stands for the front of an empty list.\<close>
  "front xs = (case xs of [] \<Rightarrow> [] | x # _ \<Rightarrow> x)"

definition join :: "string \<Rightarrow> string list \<Rightarrow> string" where
  \<comment> \<open>\<^verbatim>\<open>TagLib::StringList::toString(separator)\<close>.\<close>
  "join sep xs = (case xs of [] \<Rightarrow> [] | x # r \<Rightarrow> foldl (\<lambda>a y. a @ sep @ y) x r)"


section \<open>The codec library's objects\<close>

text \<open>
  TagLib is an external collaborator; the tag reader only calls it. Its objects are modelled
  by the data the tag reader reads and writes through them, and its operations by their
  documented effect on that data. Three boundaries of the model:
  \<^item> the generic interface \<^verbatim>\<open>TagLib::Tag\<close> (title, artist, album, genre, comment, year,
    track) is a record of its own beside the format's field map, which holds the fields
    the tag reader addresses by key;
  \<^item> an ID3v2 frame is its identifier and content; text encodings and header flags are
    left out, and rendering a frame to bytes and parsing it back yields the same frame;
  \<^item> the objects are those of a file TagLib has parsed: the audio properties of a valid
    file exist, and a frame identifier with a class of its own names frames of that class.
\<close>

datatype PictureType = FrontCover | OtherPictureType nat

record Picture =
  picture_type :: PictureType
  picture_mimeType :: string
  picture_data :: bytes

record XiphComment =
  fieldListMap :: "string \<rightharpoonup> string list"
  xiph_pictureList :: "Picture list"

datatype APE_Item = TextItem "string list" | BinaryItem bytes

type_synonym APE_Tag = "string \<rightharpoonup> APE_Item"

datatype Frame =
    TextIdentificationFrame string "string list"
  | UserTextIdentificationFrame "string list"
  | CommentsFrame string string
  | UnsynchronizedLyricsFrame string string
  | PopularimeterFrame nat "32 word"
  | UniqueFileIdentifierFrame string string
  | AttachedPictureFrame PictureType string bytes
  | OtherFrame string string

type_synonym ID3v2_Tag = "Frame list"

datatype CoverArtFormat = JPEG | PNG | OtherCoverArtFormat

datatype MP4_Item =
    BoolItem bool
  | IntItem int
  | IntPairItem int int
  | StringListItem "string list"
  | CoverArtListItem "(CoverArtFormat \<times> bytes) list"

type_synonym MP4_Tag = "string \<rightharpoonup> MP4_Item"

type_synonym ASF_Tag = "string \<rightharpoonup> string list"

record Tag =
  tag_title :: string
  tag_artist :: string
  tag_album :: string
  tag_genre :: string
  tag_comment :: string
  tag_year :: "32 word"
  tag_track :: "32 word"

record AudioProperties =
  ap_bitrate :: int
  ap_sampleRate :: int
  ap_lengthInMilliseconds :: int
  ap_bitsPerSample :: int

datatype FileClass =
    WAV_File | FLAC_File | WavPack_File | OggFLAC_File | OggVorbis_File | OggOpus_File
  | OggSpeex_File | MPEG_File | MP4_File | ASF_File | AIFF_File | MPC_File | TrueAudio_File
  | APE_File | Mod_File | S3M_File | XM_File | IT_File | DSF_File | DSDIFF_File | Other_File

record TFile =
  file_class :: FileClass
  audioProperties :: "AudioProperties option"
  tag :: "Tag option"
  xiphComment :: "XiphComment option"
  flac_pictureList :: "Picture list"
  APETag :: "APE_Tag option"
  hasID3v2Tag :: bool
  ID3v2Tag :: "ID3v2_Tag option"
  mp4_tag :: "MP4_Tag option"
  asf_tag :: "ASF_Tag option"

subsection \<open>Xiph comments\<close>

definition xiph_contains :: "XiphComment \<Rightarrow> string \<Rightarrow> bool" where
  "xiph_contains x k = (fieldListMap x k \<noteq> None)"

definition xiph_field :: "XiphComment \<Rightarrow> string \<Rightarrow> string list" where
  \<comment> \<open>\<^verbatim>\<open>map[key]\<close>\<close>
  "xiph_field x k = (case fieldListMap x k of None \<Rightarrow> [] | Some vs \<Rightarrow> vs)"

definition removeFields :: "string \<Rightarrow> XiphComment \<Rightarrow> XiphComment" where
  "removeFields key x = x\<lparr>fieldListMap := (fieldListMap x)(upper key := None)\<rparr>"

definition addField :: "string \<Rightarrow> string \<Rightarrow> bool \<Rightarrow> XiphComment \<Rightarrow> XiphComment" where
  \<comment> \<open>\<^verbatim>\<open>XiphComment::addField(key, value, replace)\<close>: the key is upper-cased, the old
      values go when \<open>replace\<close> is set, and an empty value is not stored.\<close>
  "addField key value replace x =
     (let x1 = (if replace then removeFields key x else x) in
      if key \<noteq> [] \<and> value \<noteq> []
      then x1\<lparr>fieldListMap := (fieldListMap x1)(upper key \<mapsto> xiph_field x1 (upper key) @ [value])\<rparr>
      else x1)"

definition empty_XiphComment :: XiphComment where
  "empty_XiphComment = \<lparr>fieldListMap = Map.empty, xiph_pictureList = []\<rparr>"

subsection \<open>APE tags\<close>

definition APE_toString :: "APE_Item \<Rightarrow> string" where
  \<comment> \<open>\<^verbatim>\<open>APE::Item::toString\<close>: the first text value.\<close>
  "APE_toString it = (case it of TextItem vs \<Rightarrow> front vs | BinaryItem _ \<Rightarrow> [])"

definition APE_values :: "APE_Item \<Rightarrow> string list" where
  "APE_values it = (case it of TextItem vs \<Rightarrow> vs | BinaryItem _ \<Rightarrow> [])"

definition APE_binaryData :: "APE_Item \<Rightarrow> bytes" where
  "APE_binaryData it = (case it of TextItem _ \<Rightarrow> [] | BinaryItem b \<Rightarrow> b)"

definition APE_item :: "APE_Tag \<Rightarrow> string \<Rightarrow> APE_Item" where
  \<comment> \<open>\<^verbatim>\<open>map[key]\<close>\<close>
  "APE_item t k = (case t k of None \<Rightarrow> TextItem [] | Some it \<Rightarrow> it)"

definition APE_setItem :: "string \<Rightarrow> APE_Item \<Rightarrow> APE_Tag \<Rightarrow> APE_Tag" where
  "APE_setItem key it t = t(upper key \<mapsto> it)"

definition APE_removeItem :: "string \<Rightarrow> APE_Tag \<Rightarrow> APE_Tag" where
  "APE_removeItem key t = t(upper key := None)"

definition APE_addValue :: "string \<Rightarrow> string \<Rightarrow> bool \<Rightarrow> APE_Tag \<Rightarrow> APE_Tag" where
  \<comment> \<open>\<^verbatim>\<open>APE::Tag::addValue(key, value, replace)\<close>: an empty value is not stored; a value
      is appended to a text item and replaces any other.\<close>
  "APE_addValue key value replace t =
     (let t1 = (if replace then APE_removeItem key t else t) in
      if value = [] then t1
      else (case t1 (upper key) of
              Some (TextItem vs) \<Rightarrow> t1(upper key \<mapsto> TextItem (vs @ [value]))
            | _ \<Rightarrow> APE_setItem key (TextItem [value]) t1))"

subsection \<open>ID3v2 tags\<close>

fun frameID :: "Frame \<Rightarrow> string" where
  "frameID (TextIdentificationFrame i _) = i"
| "frameID (UserTextIdentificationFrame _) = ''TXXX''"
| "frameID (CommentsFrame _ _) = ''COMM''"
| "frameID (UnsynchronizedLyricsFrame _ _) = ''USLT''"
| "frameID (PopularimeterFrame _ _) = ''POPM''"
| "frameID (UniqueFileIdentifierFrame _ _) = ''UFID''"
| "frameID (AttachedPictureFrame _ _ _) = ''APIC''"
| "frameID (OtherFrame i _) = i"

definition frameList :: "ID3v2_Tag \<Rightarrow> string \<Rightarrow> Frame list" where
  \<comment> \<open>\<^verbatim>\<open>tag->frameListMap()[id]\<close>: the frames of that identifier, in the tag's order.\<close>
  "frameList t i = filter (\<lambda>f. frameID f = i) t"

definition id3_contains :: "ID3v2_Tag \<Rightarrow> string \<Rightarrow> bool" where
  "id3_contains t i = (frameList t i \<noteq> [])"

fun Frame_toString :: "Frame \<Rightarrow> string" where
  "Frame_toString (TextIdentificationFrame _ fl) = join '' '' fl"
| "Frame_toString (UserTextIdentificationFrame fl) =
     ''['' @ front fl @ ''] '' @ join '' '' (tl fl)"
| "Frame_toString (CommentsFrame _ t) = t"
| "Frame_toString (UnsynchronizedLyricsFrame _ t) = t"
| "Frame_toString (PopularimeterFrame r c) =
     '' rating='' @ number (int r) @ '' counter='' @ number (uint c)"
| "Frame_toString (UniqueFileIdentifierFrame _ _) = []"
| "Frame_toString (AttachedPictureFrame _ m _) = ''['' @ m @ '']''"
| "Frame_toString (OtherFrame _ t) = t"

definition front_toString :: "Frame list \<Rightarrow> string" where
  \<comment> \<open>\<^verbatim>\<open>map[id].front()->toString()\<close>\<close>
  "front_toString fs = (case fs of [] \<Rightarrow> [] | f # _ \<Rightarrow> Frame_toString f)"

definition addFrame :: "Frame \<Rightarrow> ID3v2_Tag \<Rightarrow> ID3v2_Tag" where
  "addFrame f t = t @ [f]"

definition removeFrame :: "Frame \<Rightarrow> ID3v2_Tag \<Rightarrow> ID3v2_Tag" where
  \<comment> \<open>The frame object handed over is always the first of its content in the tag.\<close>
  "removeFrame f t = remove1 f t"

fun Frame_setText :: "string \<Rightarrow> Frame \<Rightarrow> Frame" where
  "Frame_setText v (TextIdentificationFrame i _) = TextIdentificationFrame i [v]"
| "Frame_setText v (UserTextIdentificationFrame fl) = UserTextIdentificationFrame [front fl, v]"
| "Frame_setText v (UnsynchronizedLyricsFrame d _) = UnsynchronizedLyricsFrame d v"
| "Frame_setText v (CommentsFrame d _) = CommentsFrame d v"
| "Frame_setText v f = f"

definition UserText_description :: "Frame \<Rightarrow> string option" where
  \<comment> \<open>The description of a user text frame; \<open>None\<close> for a frame of another class.\<close>
  "UserText_description f =
     (case f of UserTextIdentificationFrame fl \<Rightarrow> Some (front fl) | _ \<Rightarrow> None)"

definition UserText_find :: "ID3v2_Tag \<Rightarrow> string \<Rightarrow> Frame option" where
  \<comment> \<open>\<^verbatim>\<open>UserTextIdentificationFrame::find(tag, description)\<close>\<close>
  "UserText_find t d = List.find (\<lambda>f. UserText_description f = Some d) (frameList t ''TXXX'')"

definition UserText_fieldList :: "Frame \<Rightarrow> string list" where
  "UserText_fieldList f = (case f of UserTextIdentificationFrame fl \<Rightarrow> fl | _ \<Rightarrow> [])"

subsection \<open>MP4 and ASF tags\<close>

definition MP4_isValid :: "MP4_Tag \<Rightarrow> string \<Rightarrow> bool" where
  \<comment> \<open>\<^verbatim>\<open>tag->item(name).isValid()\<close>, also \<^verbatim>\<open>tag->contains(name)\<close>\<close>
  "MP4_isValid t k = (t k \<noteq> None)"

definition MP4_toStringList :: "MP4_Tag \<Rightarrow> string \<Rightarrow> string list" where
  "MP4_toStringList t k = (case t k of Some (StringListItem vs) \<Rightarrow> vs | _ \<Rightarrow> [])"

definition MP4_toIntPair_first :: "MP4_Tag \<Rightarrow> string \<Rightarrow> int" where
  "MP4_toIntPair_first t k = (case t k of Some (IntPairItem a _) \<Rightarrow> a | _ \<Rightarrow> 0)"

definition MP4_toBool :: "MP4_Tag \<Rightarrow> string \<Rightarrow> bool" where
  "MP4_toBool t k = (case t k of Some (BoolItem b) \<Rightarrow> b | _ \<Rightarrow> False)"

definition MP4_toCoverArtList :: "MP4_Tag \<Rightarrow> string \<Rightarrow> (CoverArtFormat \<times> bytes) list" where
  "MP4_toCoverArtList t k = (case t k of Some (CoverArtListItem cs) \<Rightarrow> cs | _ \<Rightarrow> [])"

definition MP4_setItem :: "string \<Rightarrow> MP4_Item \<Rightarrow> MP4_Tag \<Rightarrow> MP4_Tag" where
  "MP4_setItem k it t = t(k \<mapsto> it)"

definition MP4_removeItem :: "string \<Rightarrow> MP4_Tag \<Rightarrow> MP4_Tag" where
  "MP4_removeItem k t = t(k := None)"

definition ASF_attributes :: "ASF_Tag \<Rightarrow> string \<Rightarrow> string list" where
  \<comment> \<open>\<^verbatim>\<open>attributes_map[name]\<close>, each attribute read by \<^verbatim>\<open>toString()\<close>\<close>
  "ASF_attributes t k = (case t k of None \<Rightarrow> [] | Some vs \<Rightarrow> vs)"

definition ASF_contains :: "ASF_Tag \<Rightarrow> string \<Rightarrow> bool" where
  "ASF_contains t k = (t k \<noteq> None)"

definition ASF_setAttribute :: "string \<Rightarrow> string \<Rightarrow> ASF_Tag \<Rightarrow> ASF_Tag" where
  "ASF_setAttribute k v t = t(k \<mapsto> [v])"

definition ASF_addAttribute :: "string \<Rightarrow> string \<Rightarrow> ASF_Tag \<Rightarrow> ASF_Tag" where
  \<comment> \<open>\<^verbatim>\<open>ASF::Tag::addAttribute\<close>: appended to the attributes of that name.\<close>
  "ASF_addAttribute k v t =
     (case t k of Some vs \<Rightarrow> t(k \<mapsto> vs @ [v]) | None \<Rightarrow> ASF_setAttribute k v t)"

definition ASF_removeItem :: "string \<Rightarrow> ASF_Tag \<Rightarrow> ASF_Tag" where
  "ASF_removeItem k t = t(k := None)"

section \<open>The canonical record and the tag reader's surroundings\<close>

datatype FileType =
    FileType_UNKNOWN | FileType_WAV | FileType_FLAC | FileType_WAVPACK | FileType_OGGFLAC
  | FileType_OGGVORBIS | FileType_OGGOPUS | FileType_OGGSPEEX | FileType_MPEG | FileType_MP4
  | FileType_ASF | FileType_AIFF | FileType_MPC | FileType_TRUEAUDIO | FileType_APE
  | FileType_MOD | FileType_S3M | FileType_XM | FileType_IT | FileType_DSF | FileType_DSDIFF

datatype IdField =
    acoustid_id | acoustid_fingerprint | musicbrainz_album_artist_id | musicbrainz_artist_id
  | musicbrainz_original_artist_id | musicbrainz_album_id | musicbrainz_original_album_id
  | musicbrainz_recording_id | musicbrainz_track_id | musicbrainz_disc_id
  | musicbrainz_release_group_id | musicbrainz_work_id

text \<open>
  \<^verbatim>\<open>spb::tagreader::SongMetadata\<close>. The twelve AcoustID and MusicBrainz identifier strings are
  one field \<open>ids\<close>, indexed by the identifier's name. The integer fields are \<^typ>\<open>int\<close>
  (the values stored all come from 32-bit reads); the play count is unsigned.
\<close>

record SongMetadata =
  valid :: bool
  title :: string
  album :: string
  artist :: string
  albumartist :: string
  track :: int
  disc :: int
  year :: int
  originalyear :: int
  genre :: string
  compilation :: bool
  composer :: string
  performer :: string
  grouping :: string
  comment :: string
  lyrics :: string
  length_nanosec :: int
  bitrate :: int
  samplerate :: int
  bitdepth :: int
  url :: bytes
  basefilename :: bytes
  filetype :: FileType
  filesize :: int
  mtime :: int
  ctime :: int
  playcount :: "32 word"
  lastplayed :: int
  lastseen :: int
  art_embedded :: bool
  rating :: real
  ids :: "IdField \<Rightarrow> string"

text \<open>
  What the tag reader takes from outside this file and no claim depends on in detail:
  Qt's float parsing and printing and base64 decoding, the two rating conversions of the
  base class, the URL encoding of a path, and the two build switches of \<^verbatim>\<open>config.h\<close>.
  A rating is a \<^typ>\<open>real\<close>: the tag reader only compares it with 0 and 1.
\<close>

record Collaborators =
  QString_toFloat :: "string \<Rightarrow> real"
  QString_number_float :: "real \<Rightarrow> string"
  QByteArray_fromBase64 :: "bytes \<Rightarrow> bytes"
  ConvertPOPMRating :: "nat \<Rightarrow> real"
  ConvertToPOPMRating :: "real \<Rightarrow> nat"
  QUrl_toEncoded :: "string \<Rightarrow> bytes"
  HAVE_TAGLIB_DSFFILE :: bool
  HAVE_TAGLIB_DSDIFFFILE :: bool

record FileInfo =
  fi_fileName :: string
  fi_size :: int
  fi_lastModified :: "int option"
  fi_birthTime :: "int option"

datatype Event = Opened string | Saved string

text \<open>
  The file system and the clock. A path names no file (\<open>None\<close>), a file TagLib yields no
  usable \<^verbatim>\<open>FileRef\<close> for (\<open>Some (info, None)\<close>), or a file with its parsed content.
  \<open>events\<close> records every \<^verbatim>\<open>GetFileRef\<close> and every \<^verbatim>\<open>save()\<close>, in order.
\<close>

record World =
  files :: "string \<rightharpoonup> FileInfo \<times> TFile option"
  save_succeeds :: "string \<Rightarrow> bool"
  currentSecsSinceEpoch :: int
  events :: "Event list"

datatype Result =
  Success | FilenameMissing | FileDoesNotExist | FileOpenError | FileSaveError | Unsupported

definition exists_file :: "World \<Rightarrow> string \<Rightarrow> bool" where
  \<comment> \<open>\<^verbatim>\<open>QFile::exists(filename)\<close>, \<^verbatim>\<open>QFileInfo(filename).exists()\<close>\<close>
  "exists_file w filename = (files w filename \<noteq> None)"

definition GetFileRef :: "World \<Rightarrow> string \<Rightarrow> TFile option \<times> World" where
  \<comment> \<open>\<^verbatim>\<open>factory_->GetFileRef(filename)\<close>; \<open>None\<close> is a null pointer or a null \<^verbatim>\<open>FileRef\<close>.\<close>
  "GetFileRef w filename =
     ((case files w filename of Some (_, Some f) \<Rightarrow> Some f | _ \<Rightarrow> None),
      w\<lparr>events := events w @ [Opened filename]\<rparr>)"

definition save :: "World \<Rightarrow> string \<Rightarrow> bool \<times> World" where
  \<comment> \<open>\<^verbatim>\<open>fileref->save()\<close>\<close>
  "save w filename = (save_succeeds w filename, w\<lparr>events := events w @ [Saved filename]\<rparr>)"

definition kNsecPerMsec :: int where
  \<comment> \<open>from \<^verbatim>\<open>utilities/timeconstants.h\<close>\<close>
  "kNsecPerMsec = 1000000"

section \<open>Reading\<close>

definition GuessFileType :: "Collaborators \<Rightarrow> TFile \<Rightarrow> FileType" where
  "GuessFileType L f =
     (case file_class f of
        WAV_File \<Rightarrow> FileType_WAV
      | FLAC_File \<Rightarrow> FileType_FLAC
      | WavPack_File \<Rightarrow> FileType_WAVPACK
      | OggFLAC_File \<Rightarrow> FileType_OGGFLAC
      | OggVorbis_File \<Rightarrow> FileType_OGGVORBIS
      | OggOpus_File \<Rightarrow> FileType_OGGOPUS
      | OggSpeex_File \<Rightarrow> FileType_OGGSPEEX
      | MPEG_File \<Rightarrow> FileType_MPEG
      | MP4_File \<Rightarrow> FileType_MP4
      | ASF_File \<Rightarrow> FileType_ASF
      | AIFF_File \<Rightarrow> FileType_AIFF
      | MPC_File \<Rightarrow> FileType_MPC
      | TrueAudio_File \<Rightarrow> FileType_TRUEAUDIO
      | APE_File \<Rightarrow> FileType_APE
      | Mod_File \<Rightarrow> FileType_MOD
      | S3M_File \<Rightarrow> FileType_S3M
      | XM_File \<Rightarrow> FileType_XM
      | IT_File \<Rightarrow> FileType_IT
      | DSF_File \<Rightarrow> if HAVE_TAGLIB_DSFFILE L then FileType_DSF else FileType_UNKNOWN
      | DSDIFF_File \<Rightarrow> if HAVE_TAGLIB_DSDIFFFILE L then FileType_DSDIFF else FileType_UNKNOWN
      | Other_File \<Rightarrow> FileType_UNKNOWN)"

definition file_tag_xiph :: "TFile \<Rightarrow> XiphComment option" where
  \<comment> \<open>\<^verbatim>\<open>dynamic_cast<TagLib::Ogg::XiphComment*>(fileref->file()->tag())\<close>: the tag of an
      Ogg file is its Xiph comment; a FLAC file's tag is a union and the cast fails.\<close>
  "file_tag_xiph f =
     (if file_class f \<in> {OggFLAC_File, OggVorbis_File, OggOpus_File, OggSpeex_File}
      then xiphComment f else None)"

definition bitsPerSample :: "TFile \<Rightarrow> int" where
  \<comment> \<open>\<^verbatim>\<open>file->audioProperties()->bitsPerSample()\<close>; the properties of a parsed file exist.\<close>
  "bitsPerSample f = (case audioProperties f of Some p \<Rightarrow> ap_bitsPerSample p | None \<Rightarrow> 0)"

definition has_front_cover :: "Picture list \<Rightarrow> bool" where
  \<comment> \<open>The loop over the pictures that sets \<^verbatim>\<open>art_embedded\<close>.\<close>
  "has_front_cover ps =
     list_ex (\<lambda>p. picture_type p = FrontCover \<and> length (picture_data p) > 0) ps"

type_synonym staging = "string \<times> string \<times> SongMetadata"

definition set_id :: "IdField \<Rightarrow> string \<Rightarrow> SongMetadata \<Rightarrow> SongMetadata" where
  "set_id fld v s = s\<lparr>ids := (ids s)(fld := v)\<rparr>"

definition Xiph_APE_id_keys :: "(string \<times> IdField) list" where
  "Xiph_APE_id_keys =
     [(''ACOUSTID_ID'', acoustid_id),
      (''ACOUSTID_FINGERPRINT'', acoustid_fingerprint),
      (''MUSICBRAINZ_ALBUMARTISTID'', musicbrainz_album_artist_id),
      (''MUSICBRAINZ_ARTISTID'', musicbrainz_artist_id),
      (''MUSICBRAINZ_ORIGINALARTISTID'', musicbrainz_original_artist_id),
      (''MUSICBRAINZ_ALBUMID'', musicbrainz_album_id),
      (''MUSICBRAINZ_ORIGINALALBUMID'', musicbrainz_original_album_id),
      (''MUSICBRAINZ_TRACKID'', musicbrainz_recording_id),
      (''MUSICBRAINZ_RELEASETRACKID'', musicbrainz_track_id),
      (''MUSICBRAINZ_DISCID'', musicbrainz_disc_id),
      (''MUSICBRAINZ_RELEASEGROUPID'', musicbrainz_release_group_id),
      (''MUSICBRAINZ_WORKID'', musicbrainz_work_id)]"

definition in_order :: "('a \<Rightarrow> 'a) list \<Rightarrow> 'a \<Rightarrow> 'a" where
  \<comment> \<open>A run of statements on the record, each applied to what the one before left.\<close>
  "in_order statements s = foldl (\<lambda>s statement. statement s) s statements"

definition read_ids ::
  "(string \<Rightarrow> bool) \<Rightarrow> (string \<Rightarrow> string) \<Rightarrow> (string \<times> IdField) list \<Rightarrow> SongMetadata
   \<Rightarrow> SongMetadata" where
  \<comment> \<open>The run of \<^verbatim>\<open>if (map.contains(key)) Assign...(value, song->mutable_...)\<close> lines.\<close>
  "read_ids has val keys s =
     foldl (\<lambda>s (k, fld). if has k then set_id fld (val k) s else s) s keys"

definition ParseOggTag :: "Collaborators \<Rightarrow> XiphComment \<Rightarrow> staging \<Rightarrow> staging" where
  "ParseOggTag L x st =
     (case st of (disc0, compilation0, s0) \<Rightarrow>
      let has = xiph_contains x;
          val = (\<lambda>k. front (xiph_field x k))
      in ((if has ''DISCNUMBER'' then trimmed (val ''DISCNUMBER'') else disc0),
          (if has ''COMPILATION'' then trimmed (val ''COMPILATION'') else compilation0),
          in_order
            [\<lambda>s. if has ''COMPOSER'' then s\<lparr>composer := val ''COMPOSER''\<rparr> else s,
             \<lambda>s. if has ''PERFORMER'' then s\<lparr>performer := val ''PERFORMER''\<rparr> else s,
             \<lambda>s. if has ''CONTENT GROUP'' then s\<lparr>grouping := val ''CONTENT GROUP''\<rparr> else s,
             \<lambda>s. if has ''GROUPING'' then s\<lparr>grouping := val ''GROUPING''\<rparr> else s,
             \<lambda>s. if has ''ALBUMARTIST'' then s\<lparr>albumartist := val ''ALBUMARTIST''\<rparr>
                  else if has ''ALBUM ARTIST'' then s\<lparr>albumartist := val ''ALBUM ARTIST''\<rparr>
                  else s,
             \<lambda>s. if has ''ORIGINALDATE''
                  then s\<lparr>originalyear := QString_toInt (left 4 (val ''ORIGINALDATE''))\<rparr>
                  else if has ''ORIGINALYEAR''
                  then s\<lparr>originalyear := QString_toInt (val ''ORIGINALYEAR'')\<rparr>
                  else s,
             \<lambda>s. if has ''COVERART'' then s\<lparr>art_embedded := True\<rparr> else s,
             \<lambda>s. if has ''METADATA_BLOCK_PICTURE'' then s\<lparr>art_embedded := True\<rparr> else s,
             \<lambda>s. if has ''FMPS_PLAYCOUNT'' \<and> playcount s \<le> 0
                  then s\<lparr>playcount := word_of_int (QString_toInt (trimmed (val ''FMPS_PLAYCOUNT'')))\<rparr>
                  else s,
             \<lambda>s. if has ''FMPS_RATING'' \<and> rating s \<le> 0
                  then s\<lparr>rating := QString_toFloat L (trimmed (val ''FMPS_RATING''))\<rparr>
                  else s,
             \<lambda>s. if has ''LYRICS'' then s\<lparr>lyrics := val ''LYRICS''\<rparr>
                  else if has ''UNSYNCEDLYRICS'' then s\<lparr>lyrics := val ''UNSYNCEDLYRICS''\<rparr>
                  else s,
             read_ids has val Xiph_APE_id_keys]
            s0))"

definition ParseAPETag :: "Collaborators \<Rightarrow> APE_Tag \<Rightarrow> staging \<Rightarrow> staging" where
  "ParseAPETag L m st =
     (case st of (disc0, compilation0, s0) \<Rightarrow>
      let has = (\<lambda>k. m k \<noteq> None);
          str = (\<lambda>k. APE_toString (APE_item m k));
          vals = (\<lambda>k. APE_values (APE_item m k))
      in ((if has ''DISC'' then number (String_toInt (str ''DISC'')) else disc0),
          (if has ''COMPILATION'' then number (String_toInt (str ''COMPILATION''))
           else compilation0),
          in_order
            [\<lambda>s. if has ''ALBUM ARTIST'' \<and> vals ''ALBUM ARTIST'' \<noteq> []
                  then s\<lparr>albumartist := front (vals ''ALBUM ARTIST'')\<rparr> else s,
             \<lambda>s. if has ''COVER ART (FRONT)'' then s\<lparr>art_embedded := True\<rparr> else s,
             \<lambda>s. if has ''PERFORMER'' then s\<lparr>performer := join '', '' (vals ''PERFORMER'')\<rparr>
                  else s,
             \<lambda>s. if has ''COMPOSER'' then s\<lparr>composer := join '', '' (vals ''COMPOSER'')\<rparr>
                  else s,
             \<lambda>s. if has ''GROUPING'' then s\<lparr>grouping := join '' '' (vals ''GROUPING'')\<rparr>
                  else s,
             \<lambda>s. if has ''LYRICS'' then s\<lparr>lyrics := str ''LYRICS''\<rparr> else s,
             \<lambda>s. if has ''FMPS_PLAYCOUNT'' \<and> playcount s \<le> 0
                     \<and> QString_toInt (str ''FMPS_PLAYCOUNT'') > 0
                  then s\<lparr>playcount := word_of_int (QString_toInt (str ''FMPS_PLAYCOUNT''))\<rparr>
                  else s,
             \<lambda>s. if has ''FMPS_RATING'' \<and> rating s \<le> 0
                     \<and> QString_toFloat L (str ''FMPS_RATING'') > 0
                  then s\<lparr>rating := QString_toFloat L (str ''FMPS_RATING'')\<rparr>
                  else s,
             read_ids has str Xiph_APE_id_keys]
            s0))"

definition ID3v2_id_descriptions :: "(string \<times> IdField) list" where
  "ID3v2_id_descriptions =
     [(''Acoustid Id'', acoustid_id),
      (''Acoustid Fingerprint'', acoustid_fingerprint),
      (''MusicBrainz Album Artist Id'', musicbrainz_album_artist_id),
      (''MusicBrainz Artist Id'', musicbrainz_artist_id),
      (''MusicBrainz Original Artist Id'', musicbrainz_original_artist_id),
      (''MusicBrainz Album Id'', musicbrainz_album_id),
      (''MusicBrainz Original Album Id'', musicbrainz_original_album_id),
      (''MusicBrainz Release Track Id'', musicbrainz_track_id),
      (''MusicBrainz Disc Id'', musicbrainz_disc_id),
      (''MusicBrainz Release Group Id'', musicbrainz_release_group_id),
      (''MusicBrainz Work Id'', musicbrainz_work_id)]"

definition ParseID3v2_comment :: "ID3v2_Tag \<Rightarrow> SongMetadata \<Rightarrow> SongMetadata" where
  \<comment> \<open>The first \<^verbatim>\<open>COMM\<close> frame whose description is not \<^verbatim>\<open>iTunNORM\<close>.\<close>
  "ParseID3v2_comment t s =
     (case List.find (\<lambda>f. case f of CommentsFrame d _ \<Rightarrow> d \<noteq> ''iTunNORM'' | _ \<Rightarrow> False)
             (frameList t ''COMM'') of
        Some (CommentsFrame _ txt) \<Rightarrow> s\<lparr>comment := txt\<rparr>
      | _ \<Rightarrow> s)"

definition ParseID3v2_UFID :: "Frame \<Rightarrow> SongMetadata \<Rightarrow> SongMetadata" where
  \<comment> \<open>\<^verbatim>\<open>asProperties()\<close> of a \<^verbatim>\<open>UFID\<close> frame holds \<^verbatim>\<open>MUSICBRAINZ_TRACKID\<close> when its owner
      is MusicBrainz.\<close>
  "ParseID3v2_UFID f s =
     (case f of
        UniqueFileIdentifierFrame owner ident \<Rightarrow>
          if owner = ''http://musicbrainz.org'' then set_id musicbrainz_recording_id ident s
          else s
      | _ \<Rightarrow> s)"

definition ParseID3v2_TXXX :: "Frame \<Rightarrow> SongMetadata \<Rightarrow> SongMetadata" where
  "ParseID3v2_TXXX f s =
     (case f of
        UserTextIdentificationFrame fl \<Rightarrow>
          if length fl \<noteq> 2 then s
          else read_ids (\<lambda>d. front fl = d) (\<lambda>d. last fl) ID3v2_id_descriptions s
      | _ \<Rightarrow> s)"

definition ParseID3v2_FMPS_Playcount :: "ID3v2_Tag \<Rightarrow> SongMetadata \<Rightarrow> SongMetadata" where
  "ParseID3v2_FMPS_Playcount t s =
     (case UserText_find t ''FMPS_Playcount'' of
        Some f \<Rightarrow>
          (let fl = UserText_fieldList f in
           if length fl > 1 \<and> playcount s \<le> 0 \<and> QString_toInt (fl ! 1) > 0
           then s\<lparr>playcount := word_of_int (QString_toInt (fl ! 1))\<rparr> else s)
      | None \<Rightarrow> s)"

definition ParseID3v2_FMPS_Rating ::
  "Collaborators \<Rightarrow> ID3v2_Tag \<Rightarrow> SongMetadata \<Rightarrow> SongMetadata" where
  "ParseID3v2_FMPS_Rating L t s =
     (case UserText_find t ''FMPS_Rating'' of
        Some f \<Rightarrow>
          (let fl = UserText_fieldList f in
           if length fl > 1 \<and> rating s \<le> 0 \<and> QString_toFloat L (fl ! 1) > 0
              \<and> QString_toFloat L (fl ! 1) \<le> 1
           then s\<lparr>rating := QString_toFloat L (fl ! 1)\<rparr> else s)
      | None \<Rightarrow> s)"

definition ParseID3v2_POPM :: "Collaborators \<Rightarrow> ID3v2_Tag \<Rightarrow> SongMetadata \<Rightarrow> SongMetadata" where
  "ParseID3v2_POPM L t s =
     (case frameList t ''POPM'' of
        PopularimeterFrame r c # _ \<Rightarrow>
          in_order
            [\<lambda>s. if playcount s \<le> 0 \<and> c > 0 then s\<lparr>playcount := c\<rparr> else s,
             \<lambda>s. if rating s \<le> 0 \<and> r > 0 then s\<lparr>rating := ConvertPOPMRating L r\<rparr> else s]
            s
      | _ \<Rightarrow> s)"

definition ParseID3v2Tag :: "Collaborators \<Rightarrow> ID3v2_Tag \<Rightarrow> staging \<Rightarrow> staging" where
  "ParseID3v2Tag L t st =
     (case st of (disc0, compilation0, s0) \<Rightarrow>
      let has = id3_contains t;
          str = (\<lambda>i. front_toString (frameList t i))
      in ((if has ''TPOS'' then trimmed (str ''TPOS'') else disc0),
          (if has ''TCMP'' then trimmed (str ''TCMP'') else compilation0),
          in_order
            [\<lambda>s. if has ''TCOM'' then s\<lparr>composer := str ''TCOM''\<rparr> else s,
             \<lambda>s. if has ''TIT1'' then s\<lparr>grouping := str ''TIT1''\<rparr> else s,
             \<lambda>s. if has ''TOPE'' then s\<lparr>performer := str ''TOPE''\<rparr> else s,
             \<lambda>s. if has ''TPE2'' then s\<lparr>albumartist := str ''TPE2''\<rparr> else s,
             \<lambda>s. if has ''TDOR'' then s\<lparr>originalyear := String_toInt (left 4 (str ''TDOR''))\<rparr>
                  else if has ''TORY''
                  then s\<lparr>originalyear := String_toInt (left 4 (str ''TORY''))\<rparr>
                  else s,
             \<lambda>s. if has ''USLT'' then s\<lparr>lyrics := str ''USLT''\<rparr>
                  else if has ''SYLT'' then s\<lparr>lyrics := str ''SYLT''\<rparr>
                  else s,
             \<lambda>s. if has ''APIC'' then s\<lparr>art_embedded := True\<rparr> else s,
             ParseID3v2_comment t,
             ParseID3v2_FMPS_Playcount t,
             ParseID3v2_FMPS_Rating L t,
             ParseID3v2_POPM L t,
             \<lambda>s. foldl (\<lambda>s f. ParseID3v2_UFID f s) s (frameList t ''UFID''),
             \<lambda>s. foldl (\<lambda>s f. ParseID3v2_TXXX f s) s (frameList t ''TXXX'')]
            s0))"

definition MP4_id_atoms :: "(string \<times> IdField) list" where
  "MP4_id_atoms =
     [(''----:com.apple.iTunes:Acoustid Id'', acoustid_id),
      (''----:com.apple.iTunes:Acoustid Fingerprint'', acoustid_fingerprint),
      (''----:com.apple.iTunes:MusicBrainz Album Artist Id'', musicbrainz_album_artist_id),
      (''----:com.apple.iTunes:MusicBrainz Artist Id'', musicbrainz_artist_id),
      (''----:com.apple.iTunes:MusicBrainz Original Artist Id'', musicbrainz_original_artist_id),
      (''----:com.apple.iTunes:MusicBrainz Album Id'', musicbrainz_album_id),
      (''----:com.apple.iTunes:MusicBrainz Original Album Id'', musicbrainz_original_album_id),
      (''----:com.apple.iTunes:MusicBrainz Track Id'', musicbrainz_recording_id),
      (''----:com.apple.iTunes:MusicBrainz Release Track Id'', musicbrainz_track_id),
      (''----:com.apple.iTunes:MusicBrainz Disc Id'', musicbrainz_disc_id),
      (''----:com.apple.iTunes:MusicBrainz Release Group Id'', musicbrainz_release_group_id),
      (''----:com.apple.iTunes:MusicBrainz Work Id'', musicbrainz_work_id)]"

definition kMP4_OriginalYear_ID :: string where
  "kMP4_OriginalYear_ID = ''----:com.apple.iTunes:ORIGINAL YEAR''"

definition kMP4_FMPS_Playcount_ID :: string where
  "kMP4_FMPS_Playcount_ID = ''----:com.apple.iTunes:FMPS_Playcount''"

definition kMP4_FMPS_Rating_ID :: string where
  "kMP4_FMPS_Rating_ID = ''----:com.apple.iTunes:FMPS_Rating''"

definition atom_wrt :: string where "atom_wrt = CHR 0xA9 # ''wrt''"
definition atom_grp :: string where "atom_grp = CHR 0xA9 # ''grp''"
definition atom_lyr :: string where "atom_lyr = CHR 0xA9 # ''lyr''"

definition ParseMP4Tag :: "Collaborators \<Rightarrow> Tag option \<Rightarrow> MP4_Tag \<Rightarrow> staging \<Rightarrow> staging" where
  \<comment> \<open>The body of \<^verbatim>\<open>if (file_mp4->tag())\<close> in \<^verbatim>\<open>ReadFile\<close>. \<open>g\<close> is the generic view of
      the same tag, read for the comment.\<close>
  "ParseMP4Tag L g t st =
     (case st of (disc0, compilation0, s0) \<Rightarrow>
      let has = MP4_isValid t;
          sl = MP4_toStringList t;
          pc = QString_toInt (join [CHR 0x0A] (sl kMP4_FMPS_Playcount_ID));
          r = QString_toFloat L (join [CHR 0x0A] (sl kMP4_FMPS_Rating_ID))
      in ((if has ''disk'' then number (MP4_toIntPair_first t ''disk'') else disc0),
          compilation0,
          in_order
            [\<lambda>s. if has ''aART'' \<and> sl ''aART'' \<noteq> []
                  then s\<lparr>albumartist := front (sl ''aART'')\<rparr> else s,
             \<lambda>s. if has ''covr'' then s\<lparr>art_embedded := True\<rparr> else s,
             \<lambda>s. if has atom_wrt then s\<lparr>composer := join '', '' (sl atom_wrt)\<rparr> else s,
             \<lambda>s. if has atom_grp then s\<lparr>grouping := join '' '' (sl atom_grp)\<rparr> else s,
             \<lambda>s. if has atom_lyr then s\<lparr>lyrics := join '' '' (sl atom_lyr)\<rparr> else s,
             \<lambda>s. if has kMP4_OriginalYear_ID
                  then s\<lparr>originalyear :=
                           QString_toInt (left 4 (join [CHR 0x0A] (sl kMP4_OriginalYear_ID)))\<rparr>
                  else s,
             \<lambda>s. if has ''cpil'' then s\<lparr>compilation := MP4_toBool t ''cpil''\<rparr> else s,
             \<lambda>s. if has kMP4_FMPS_Playcount_ID \<and> playcount s \<le> 0 \<and> pc > 0
                  then s\<lparr>playcount := word_of_int pc\<rparr> else s,
             \<lambda>s. if has kMP4_FMPS_Rating_ID \<and> rating s \<le> 0 \<and> r > 0
                  then s\<lparr>rating := r\<rparr> else s,
             \<lambda>s. s\<lparr>comment := (case g of Some tg \<Rightarrow> tag_comment tg | None \<Rightarrow> [])\<rparr>,
             read_ids has (\<lambda>k. join '' '' (sl k)) MP4_id_atoms]
            s0))"

definition ASF_id_attributes :: "(string \<times> IdField) list" where
  "ASF_id_attributes =
     [(''Acoustid/Id'', acoustid_id),
      (''Acoustid/Fingerprint'', acoustid_fingerprint),
      (''MusicBrainz/Album Artist Id'', musicbrainz_album_artist_id),
      (''MusicBrainz/Artist Id'', musicbrainz_artist_id),
      (''MusicBrainz/Original Artist Id'', musicbrainz_original_artist_id),
      (''MusicBrainz/Album Id'', musicbrainz_album_id),
      (''MusicBrainz/Original Album Id'', musicbrainz_original_album_id),
      (''MusicBrainz/Track Id'', musicbrainz_recording_id),
      (''MusicBrainz/Release Track Id'', musicbrainz_track_id),
      (''MusicBrainz/Disc Id'', musicbrainz_disc_id),
      (''MusicBrainz/Release Group Id'', musicbrainz_release_group_id),
      (''MusicBrainz/Work Id'', musicbrainz_work_id)]"

definition ParseASFTag :: "Collaborators \<Rightarrow> Tag option \<Rightarrow> ASF_Tag \<Rightarrow> staging \<Rightarrow> staging" where
  \<comment> \<open>The body of \<^verbatim>\<open>if (file_asf->tag())\<close> in \<^verbatim>\<open>ReadFile\<close>.\<close>
  "ParseASFTag L g t st =
     (case st of (disc0, compilation0, s0) \<Rightarrow>
      let has = ASF_contains t;
          att = ASF_attributes t;
          pc = QString_toInt (front (att ''FMPS/Playcount''));
          r = QString_toFloat L (front (att ''FMPS/Rating''))
      in (disc0, compilation0,
          in_order
            [\<lambda>s. s\<lparr>comment := (case g of Some tg \<Rightarrow> tag_comment tg | None \<Rightarrow> [])\<rparr>,
             \<lambda>s. if has ''WM/OriginalReleaseTime''
                  then (if att ''WM/OriginalReleaseTime'' \<noteq> []
                        then s\<lparr>originalyear :=
                                 QString_toInt (left 4 (front (att ''WM/OriginalReleaseTime'')))\<rparr>
                        else s)
                  else if has ''WM/OriginalReleaseYear''
                  then (if att ''WM/OriginalReleaseYear'' \<noteq> []
                        then s\<lparr>originalyear :=
                                 QString_toInt (left 4 (front (att ''WM/OriginalReleaseYear'')))\<rparr>
                        else s)
                  else s,
             \<lambda>s. if has ''FMPS/Playcount'' \<and> att ''FMPS/Playcount'' \<noteq> [] \<and> playcount s \<le> 0
                     \<and> pc > 0
                  then s\<lparr>playcount := word_of_int pc\<rparr> else s,
             \<lambda>s. if has ''FMPS/Rating'' \<and> att ''FMPS/Rating'' \<noteq> [] \<and> rating s \<le> 0 \<and> r > 0
                  then s\<lparr>rating := r\<rparr> else s,
             read_ids has (\<lambda>k. front (att k)) ASF_id_attributes]
            s0))"

fun QString_compare :: "string \<Rightarrow> string \<Rightarrow> int" where
  \<comment> \<open>\<^verbatim>\<open>QString::compare(other)\<close> with its default \<^verbatim>\<open>Qt::CaseSensitive\<close>: 0 exactly for
      equal strings, else the sign of the first difference.\<close>
  "QString_compare [] [] = 0"
| "QString_compare [] (y # ys) = - 1"
| "QString_compare (x # xs) [] = 1"
| "QString_compare (x # xs) (y # ys) =
     (if x = y then QString_compare xs ys else int (of_char x) - int (of_char y))"

definition indexOf :: "char \<Rightarrow> string \<Rightarrow> int" where
  \<comment> \<open>\<^verbatim>\<open>QString::indexOf(ch)\<close>: the first position of \<open>ch\<close>, or -1.\<close>
  "indexOf c s = (if c \<in> set s then int (length (takeWhile (\<lambda>x. x \<noteq> c) s)) else - 1)"

definition ReadFile_fileinfo ::
  "Collaborators \<Rightarrow> World \<Rightarrow> string \<Rightarrow> FileInfo \<Rightarrow> SongMetadata \<Rightarrow> SongMetadata" where
  \<comment> \<open>\<^verbatim>\<open>ReadFile\<close>, from the URL to \<^verbatim>\<open>set_lastseen\<close>.\<close>
  "ReadFile_fileinfo L w filename fileinfo song =
     (let modified = (case fi_lastModified fileinfo of Some t \<Rightarrow> max t 0 | None \<Rightarrow> 0);
          s1 = song\<lparr>basefilename := fi_fileName fileinfo, url := QUrl_toEncoded L filename,
                     filesize := fi_size fileinfo, mtime := modified\<rparr>;
          s2 = s1\<lparr>ctime := (case fi_birthTime fileinfo of Some t \<Rightarrow> max t 0 | None \<Rightarrow> modified)\<rparr>;
          s3 = (if ctime s2 \<le> 0 then s2\<lparr>ctime := mtime s2\<rparr> else s2)
      in s3\<lparr>lastseen := currentSecsSinceEpoch w\<rparr>)"

definition ReadFile_generic :: "Collaborators \<Rightarrow> TFile \<Rightarrow> SongMetadata \<Rightarrow> SongMetadata" where
  \<comment> \<open>\<^verbatim>\<open>ReadFile\<close>, from \<^verbatim>\<open>set_filetype\<close> to the generic tag's fields.\<close>
  "ReadFile_generic L f song =
     (let s1 = song\<lparr>filetype := GuessFileType L f\<rparr>;
          s2 = (case audioProperties f of
                  Some p \<Rightarrow> s1\<lparr>bitrate := ap_bitrate p, samplerate := ap_sampleRate p,
                                length_nanosec := ap_lengthInMilliseconds p * kNsecPerMsec\<rparr>
                | None \<Rightarrow> s1)
      in (case tag f of
            Some tg \<Rightarrow> s2\<lparr>title := tag_title tg, artist := tag_artist tg, album := tag_album tg,
                           genre := tag_genre tg, year := sint (tag_year tg),
                           track := sint (tag_track tg), valid := True\<rparr>
          | None \<Rightarrow> s2))"

definition set_art_if_front_cover :: "Picture list \<Rightarrow> staging \<Rightarrow> staging" where
  "set_art_if_front_cover ps st =
     (case st of (d, c, s) \<Rightarrow> (d, c, if has_front_cover ps then s\<lparr>art_embedded := True\<rparr> else s))"

definition set_comment_from_tag :: "TFile \<Rightarrow> staging \<Rightarrow> staging" where
  \<comment> \<open>\<^verbatim>\<open>if (tag) AssignTagLibStringToStdString(tag->comment(), song->mutable_comment())\<close>\<close>
  "set_comment_from_tag f st =
     (case st of (d, c, s) \<Rightarrow>
        (d, c, case tag f of Some tg \<Rightarrow> s\<lparr>comment := tag_comment tg\<rparr> | None \<Rightarrow> s))"

definition set_bitdepth :: "TFile \<Rightarrow> staging \<Rightarrow> staging" where
  "set_bitdepth f st = (case st of (d, c, s) \<Rightarrow> (d, c, s\<lparr>bitdepth := bitsPerSample f\<rparr>))"

definition ReadFile_format :: "Collaborators \<Rightarrow> TFile \<Rightarrow> SongMetadata \<Rightarrow> staging" where
  \<comment> \<open>\<^verbatim>\<open>ReadFile\<close>, the format-specific extraction: the staged disc string, the staged
      compilation string (both empty at the start) and the record.\<close>
  "ReadFile_format L f song =
     (let st0 = ([], [], song);
          st1 = (case file_tag_xiph f of
                   Some x \<Rightarrow> set_art_if_front_cover (xiph_pictureList x) (ParseOggTag L x st0)
                 | None \<Rightarrow> st0)
      in (case file_class f of
            FLAC_File \<Rightarrow>
              set_comment_from_tag f
                (case xiphComment f of
                   Some x \<Rightarrow> set_art_if_front_cover (flac_pictureList f)
                               (ParseOggTag L x (set_bitdepth f st1))
                 | None \<Rightarrow> set_bitdepth f st1)
          | WavPack_File \<Rightarrow>
              set_comment_from_tag f
                (case APETag f of
                   Some t \<Rightarrow> ParseAPETag L t (set_bitdepth f st1)
                 | None \<Rightarrow> set_bitdepth f st1)
          | APE_File \<Rightarrow>
              set_comment_from_tag f
                (set_bitdepth f
                   (case APETag f of Some t \<Rightarrow> ParseAPETag L t st1 | None \<Rightarrow> st1))
          | MPEG_File \<Rightarrow>
              (case ID3v2Tag f of
                 Some t \<Rightarrow> if hasID3v2Tag f then ParseID3v2Tag L t st1 else st1
               | None \<Rightarrow> st1)
          | MP4_File \<Rightarrow>
              (case mp4_tag f of
                 Some t \<Rightarrow> ParseMP4Tag L (tag f) t (set_bitdepth f st1)
               | None \<Rightarrow> set_bitdepth f st1)
          | ASF_File \<Rightarrow>
              (case asf_tag f of
                 Some t \<Rightarrow> ParseASFTag L (tag f) t (set_bitdepth f st1)
               | None \<Rightarrow> set_bitdepth f st1)
          | MPC_File \<Rightarrow>
              set_comment_from_tag f
                (case APETag f of Some t \<Rightarrow> ParseAPETag L t st1 | None \<Rightarrow> st1)
          | WAV_File \<Rightarrow>
              (case ID3v2Tag f of
                 Some t \<Rightarrow> if hasID3v2Tag f then ParseID3v2Tag L t st1 else st1
               | None \<Rightarrow> st1)
          | _ \<Rightarrow> set_comment_from_tag f st1))"

definition ReadFile_disc :: "string \<Rightarrow> SongMetadata \<Rightarrow> SongMetadata" where
  \<comment> \<open>\<^verbatim>\<open>if (!disc.isEmpty()) { ... }\<close>\<close>
  "ReadFile_disc disc_staged s =
     (if disc_staged \<noteq> []
      then (let i = indexOf CHR ''/'' disc_staged in
            if i \<noteq> - 1 then s\<lparr>disc := QString_toInt (left (nat i) disc_staged)\<rparr>
            else s\<lparr>disc := QString_toInt disc_staged\<rparr>)
      else s)"

definition ReadFile_compilation :: "string \<Rightarrow> SongMetadata \<Rightarrow> SongMetadata" where
  \<comment> \<open>\<^verbatim>\<open>if (compilation.isEmpty()) { ... } else { ... }\<close>\<close>
  "ReadFile_compilation compilation_staged s =
     (if compilation_staged = []
      then (if QString_compare (artist s) ''various artists'' = 0
               \<or> QString_compare (albumartist s) ''various artists'' = 0
            then s\<lparr>compilation := True\<rparr> else s)
      else s\<lparr>compilation := (QString_toInt compilation_staged = 1)\<rparr>)"

definition ReadFile_normalize :: "SongMetadata \<Rightarrow> SongMetadata" where
  \<comment> \<open>Set integer fields to -1 if they're not valid.\<close>
  "ReadFile_normalize s0 =
     (let s1 = (if track s0 \<le> 0 then s0\<lparr>track := - 1\<rparr> else s0);
          s2 = (if disc s1 \<le> 0 then s1\<lparr>disc := - 1\<rparr> else s1);
          s3 = (if year s2 \<le> 0 then s2\<lparr>year := - 1\<rparr> else s2);
          s4 = (if originalyear s3 \<le> 0 then s3\<lparr>originalyear := - 1\<rparr> else s3);
          s5 = (if samplerate s4 \<le> 0 then s4\<lparr>samplerate := - 1\<rparr> else s4);
          s6 = (if bitdepth s5 \<le> 0 then s5\<lparr>bitdepth := - 1\<rparr> else s5);
          s7 = (if bitrate s6 \<le> 0 then s6\<lparr>bitrate := - 1\<rparr> else s6)
      in (if lastplayed s7 \<le> 0 then s7\<lparr>lastplayed := - 1\<rparr> else s7))"

definition ReadFile_post :: "staging \<Rightarrow> SongMetadata" where
  \<comment> \<open>\<^verbatim>\<open>ReadFile\<close> after the format dispatch. The local \<^verbatim>\<open>lyrics\<close> is never assigned, so
      its line changes nothing.\<close>
  "ReadFile_post st =
     (case st of (disc_staged, compilation_staged, s) \<Rightarrow>
        let lyrics_local = ([] :: string);
            s1 = ReadFile_compilation compilation_staged (ReadFile_disc disc_staged s);
            s2 = (if lyrics_local \<noteq> [] then s1\<lparr>lyrics := lyrics_local\<rparr> else s1)
        in ReadFile_normalize s2)"

definition ReadFile ::
  "Collaborators \<Rightarrow> World \<Rightarrow> string \<Rightarrow> SongMetadata \<Rightarrow> Result \<times> SongMetadata \<times> World" where
  "ReadFile L w filename song =
     (if filename = [] then (FilenameMissing, song, w)
      else (case files w filename of
              None \<Rightarrow> (FileDoesNotExist, song, w)
            | Some (fileinfo, _) \<Rightarrow>
                let song1 = ReadFile_fileinfo L w filename fileinfo song;
                    (fileref, w1) = GetFileRef w filename
                in (case fileref of
                      None \<Rightarrow> (FileOpenError, song1, w1)
                    | Some f \<Rightarrow>
                        let song2 = ReadFile_post (ReadFile_format L f (ReadFile_generic L f song1))
                        in (if filetype song2 = FileType_UNKNOWN then (Unsupported, song2, w1)
                            else (Success, song2, w1)))))"

section \<open>Writing tag fields\<close>

definition SetVorbisComments :: "XiphComment \<Rightarrow> SongMetadata \<Rightarrow> XiphComment" where
  "SetVorbisComments vorbis_comment song =
     (removeFields ''UNSYNCEDLYRICS''
      (addField ''LYRICS'' (lyrics song) True
      (removeFields ''ALBUM ARTIST''
      (addField ''ALBUMARTIST'' (albumartist song) True
      (addField ''COMPILATION'' (if compilation song then ''1'' else []) True
      (addField ''DISCNUMBER'' (if disc song \<le> 0 then [] else number (disc song)) True
      (addField ''GROUPING'' (grouping song) True
      (addField ''PERFORMER'' (performer song) True
      (addField ''COMPOSER'' (composer song) True vorbis_comment)))))))))"

definition SaveAPETag :: "APE_Tag \<Rightarrow> SongMetadata \<Rightarrow> APE_Tag" where
  "SaveAPETag t song =
     (APE_addValue ''compilation'' (if compilation song then number 1 else []) True
      (APE_setItem ''lyrics'' (TextItem [lyrics song])
      (APE_setItem ''performer'' (TextItem [performer song])
      (APE_setItem ''grouping'' (TextItem [grouping song])
      (APE_setItem ''composer'' (TextItem [composer song])
      (APE_addValue ''disc'' (if disc song \<le> 0 then [] else number (disc song)) True
      (APE_setItem ''album artist'' (TextItem [albumartist song]) t)))))))"

function store_and_clear :: "string \<Rightarrow> Frame list \<Rightarrow> ID3v2_Tag \<Rightarrow> Frame list \<times> ID3v2_Tag" where
  \<comment> \<open>The loop "Store and clear existing frames": while the tag holds a frame of the
      identifier, its first such frame is rendered into the buffer and removed.\<close>
  "store_and_clear i frames_buffer t =
     (case frameList t i of
        [] \<Rightarrow> (frames_buffer, t)
      | f # _ \<Rightarrow> store_and_clear i (frames_buffer @ [f]) (removeFrame f t))"
  by pat_completeness auto
termination
proof (relation "measure (\<lambda>(i, b, t). length t)")
  show "wf (measure (\<lambda>(i, b, t). length t))" by simp
next
  fix i :: string and frames_buffer :: "Frame list" and t :: ID3v2_Tag and f fs
  assume "frameList t i = f # fs"
  then have "f \<in> set (filter (\<lambda>f. frameID f = i) t)"
    by (simp add: frameList_def)
  then have mem: "f \<in> set t" by simp
  then have "0 < length t" by (cases t) auto
  with mem show "((i, frames_buffer @ [f], removeFrame f t), (i, frames_buffer, t))
                 \<in> measure (\<lambda>(i, b, t). length t)"
    by (simp add: removeFrame_def length_remove1)
qed

declare store_and_clear.simps [simp del]

fun update_and_add :: "string \<Rightarrow> nat \<Rightarrow> Frame list \<Rightarrow> ID3v2_Tag \<Rightarrow> ID3v2_Tag" where
  \<comment> \<open>The loop "Update and add the frames", from index \<open>i\<close> on: each buffered frame is
      built again, the one at index 0 gets the new text, and each is added to the tag.\<close>
  "update_and_add v i [] t = t"
| "update_and_add v i (b # bs) t =
     update_and_add v (Suc i) bs (addFrame (if i = 0 then Frame_setText v b else b) t)"

definition SetTextFrame :: "string \<Rightarrow> string \<Rightarrow> ID3v2_Tag \<Rightarrow> ID3v2_Tag" where
  "SetTextFrame i v t =
     (case store_and_clear i [] t of
        (frames_buffer, t1) \<Rightarrow>
          if v = [] then t1
          else update_and_add v 0
                 (if frames_buffer = [] then [TextIdentificationFrame i []] else frames_buffer) t1)"

definition SetUnsyncLyricsFrame :: "string \<Rightarrow> ID3v2_Tag \<Rightarrow> ID3v2_Tag" where
  "SetUnsyncLyricsFrame v t =
     (case store_and_clear ''USLT'' [] t of
        (frames_buffer, t1) \<Rightarrow>
          if v = [] then t1
          else update_and_add v 0
                 (if frames_buffer = [] then [UnsynchronizedLyricsFrame ''Clementine editor'' []]
                  else frames_buffer) t1)"

definition SetUserTextFrame :: "string \<Rightarrow> string \<Rightarrow> ID3v2_Tag \<Rightarrow> ID3v2_Tag" where
  "SetUserTextFrame description v t =
     (let t1 = (case UserText_find t description of
                  Some frame \<Rightarrow> removeFrame frame t
                | None \<Rightarrow> t)
      in addFrame (UserTextIdentificationFrame [description, v]) t1)"

definition SaveID3v2Tag :: "ID3v2_Tag \<Rightarrow> SongMetadata \<Rightarrow> ID3v2_Tag" where
  "SaveID3v2Tag t song =
     (SetUnsyncLyricsFrame (lyrics song)
      (SetTextFrame ''TCMP'' (if compilation song then number 1 else [])
      (SetTextFrame ''TPE2'' (albumartist song)
      (SetTextFrame ''TOPE'' (performer song)
      (SetTextFrame ''TIT1'' (grouping song)
      (SetTextFrame ''TCOM'' (composer song)
      (SetTextFrame ''TPOS'' (if disc song \<le> 0 then [] else number (disc song)) t)))))))"

subsection \<open>Play counts and ratings\<close>

definition GetPOPMFrameFromTag :: "ID3v2_Tag \<Rightarrow> nat \<times> ID3v2_Tag" where
  \<comment> \<open>The source returns a pointer into the tag; here, the frame's position in it.\<close>
  "GetPOPMFrameFromTag t =
     (case frameList t ''POPM'' of
        PopularimeterFrame _ _ # _ \<Rightarrow> (length (takeWhile (\<lambda>f. frameID f \<noteq> ''POPM'') t), t)
      | _ \<Rightarrow> (length t, addFrame (PopularimeterFrame 0 0) t))"

definition POPM_setCounter :: "32 word \<Rightarrow> Frame \<Rightarrow> Frame" where
  "POPM_setCounter c f = (case f of PopularimeterFrame r _ \<Rightarrow> PopularimeterFrame r c | _ \<Rightarrow> f)"

definition POPM_setRating :: "nat \<Rightarrow> Frame \<Rightarrow> Frame" where
  "POPM_setRating r f = (case f of PopularimeterFrame _ c \<Rightarrow> PopularimeterFrame r c | _ \<Rightarrow> f)"

definition SetPlaycount_Xiph :: "XiphComment \<Rightarrow> 32 word \<Rightarrow> XiphComment" where
  "SetPlaycount_Xiph xiph_comment pc =
     (if pc > 0 then addField ''FMPS_PLAYCOUNT'' (number (sint pc)) True xiph_comment
      else removeFields ''FMPS_PLAYCOUNT'' xiph_comment)"

definition SetPlaycount_APE :: "APE_Tag \<Rightarrow> 32 word \<Rightarrow> APE_Tag" where
  "SetPlaycount_APE t pc =
     (if pc > 0 then APE_setItem ''FMPS_Playcount'' (TextItem [number (sint pc)]) t
      else APE_removeItem ''FMPS_Playcount'' t)"

definition SetPlaycount_ID3v2 :: "ID3v2_Tag \<Rightarrow> 32 word \<Rightarrow> ID3v2_Tag" where
  "SetPlaycount_ID3v2 t pc =
     (case GetPOPMFrameFromTag (SetUserTextFrame ''FMPS_Playcount'' (number (uint pc)) t) of
        (k, t1) \<Rightarrow> t1[k := POPM_setCounter pc (t1 ! k)])"

definition SetPlaycount_MP4 :: "MP4_Tag \<Rightarrow> 32 word \<Rightarrow> MP4_Tag" where
  "SetPlaycount_MP4 t pc =
     (if pc > 0 then MP4_setItem kMP4_FMPS_Playcount_ID (StringListItem [number (sint pc)]) t
      else MP4_removeItem kMP4_FMPS_Playcount_ID t)"

definition SetPlaycount_ASF :: "ASF_Tag \<Rightarrow> 32 word \<Rightarrow> ASF_Tag" where
  "SetPlaycount_ASF t pc =
     (if pc > 0 then ASF_setAttribute ''FMPS/Playcount'' (number (uint pc)) t
      else ASF_removeItem ''FMPS/Playcount'' t)"

definition SetRating_Xiph :: "Collaborators \<Rightarrow> XiphComment \<Rightarrow> real \<Rightarrow> XiphComment" where
  "SetRating_Xiph L xiph_comment r =
     (if r > 0 then addField ''FMPS_RATING'' (QString_number_float L r) True xiph_comment
      else removeFields ''FMPS_RATING'' xiph_comment)"

definition SetRating_APE :: "Collaborators \<Rightarrow> APE_Tag \<Rightarrow> real \<Rightarrow> APE_Tag" where
  "SetRating_APE L t r =
     (if r > 0 then APE_setItem ''FMPS_Rating'' (TextItem [QString_number_float L r]) t
      else APE_removeItem ''FMPS_Rating'' t)"

definition SetRating_ID3v2 :: "Collaborators \<Rightarrow> ID3v2_Tag \<Rightarrow> real \<Rightarrow> ID3v2_Tag" where
  "SetRating_ID3v2 L t r =
     (case GetPOPMFrameFromTag (SetUserTextFrame ''FMPS_Rating'' (QString_number_float L r) t) of
        (k, t1) \<Rightarrow> t1[k := POPM_setRating (ConvertToPOPMRating L r) (t1 ! k)])"

definition SetRating_MP4 :: "Collaborators \<Rightarrow> MP4_Tag \<Rightarrow> real \<Rightarrow> MP4_Tag" where
  "SetRating_MP4 L t r = MP4_setItem kMP4_FMPS_Rating_ID (StringListItem [QString_number_float L r]) t"

definition SetRating_ASF :: "Collaborators \<Rightarrow> ASF_Tag \<Rightarrow> real \<Rightarrow> ASF_Tag" where
  "SetRating_ASF L t r = ASF_addAttribute ''FMPS/Rating'' (QString_number_float L r) t"

subsection \<open>Embedded cover art\<close>

record Cover =
  cover_data :: bytes
  cover_mime_type :: string

definition FrontCover_picture :: "bytes \<Rightarrow> string \<Rightarrow> Picture" where
  "FrontCover_picture data mime_type =
     \<lparr>picture_type = FrontCover, picture_mimeType = mime_type, picture_data = data\<rparr>"

definition SetEmbeddedArt_FLAC :: "TFile \<Rightarrow> bytes \<Rightarrow> string \<Rightarrow> TFile" where
  "SetEmbeddedArt_FLAC flac_file data mime_type =
     flac_file\<lparr>flac_pictureList := (if data \<noteq> [] then [FrontCover_picture data mime_type] else [])\<rparr>"

definition SetEmbeddedArt_Xiph :: "XiphComment \<Rightarrow> bytes \<Rightarrow> string \<Rightarrow> XiphComment" where
  "SetEmbeddedArt_Xiph xiph_comment data mime_type =
     xiph_comment\<lparr>xiph_pictureList :=
                     (if data \<noteq> [] then [FrontCover_picture data mime_type] else [])\<rparr>"

definition is_AttachedPictureFrame :: "Frame \<Rightarrow> bool" where
  "is_AttachedPictureFrame f = (case f of AttachedPictureFrame _ _ _ \<Rightarrow> True | _ \<Rightarrow> False)"

definition SetEmbeddedArt_ID3v2 :: "ID3v2_Tag \<Rightarrow> bytes \<Rightarrow> string \<Rightarrow> ID3v2_Tag" where
  "SetEmbeddedArt_ID3v2 t data mime_type =
     (let t1 = filter (\<lambda>f. \<not> is_AttachedPictureFrame f) t in
      if data \<noteq> [] then addFrame (AttachedPictureFrame FrontCover mime_type data) t1 else t1)"

definition SetEmbeddedArt_MP4 :: "MP4_Tag \<Rightarrow> bytes \<Rightarrow> string \<Rightarrow> MP4_Tag" where
  "SetEmbeddedArt_MP4 t data mime_type =
     (if data = [] then (if MP4_isValid t ''covr'' then MP4_removeItem ''covr'' t else t)
      else if mime_type = ''image/jpeg'' then MP4_setItem ''covr'' (CoverArtListItem [(JPEG, data)]) t
      else if mime_type = ''image/png'' then MP4_setItem ''covr'' (CoverArtListItem [(PNG, data)]) t
      else t)"

definition find_byte :: "char \<Rightarrow> bytes \<Rightarrow> int" where
  \<comment> \<open>\<^verbatim>\<open>ByteVector::find\<close>: the first position of the byte, or -1.\<close>
  "find_byte c b = indexOf c b"

definition LoadEmbeddedAPEArt :: "APE_Tag \<Rightarrow> bytes" where
  "LoadEmbeddedAPEArt m =
     (case m ''COVER ART (FRONT)'' of
        Some it \<Rightarrow>
          (let data = APE_binaryData it; pos = find_byte (CHR 0x00) data + 1 in
           if pos > 0 \<and> nat pos < length data then drop (nat pos) data else [])
      | None \<Rightarrow> [])"

text \<open>
  \<^verbatim>\<open>LoadEmbeddedArt\<close> runs its stages in order on the caller's buffer. A stage either
  returns from the function (\<open>Inl\<close> of the buffer) or falls through to the next one
  (\<open>Inr\<close> of the buffer). Every \<^verbatim>\<open>return\<close> after the file is open returns Success.
\<close>

type_synonym stage_result = "bytes + bytes"

definition next_stage :: "stage_result \<Rightarrow> (bytes \<Rightarrow> stage_result) \<Rightarrow> stage_result" where
  "next_stage r k = (case r of Inl d \<Rightarrow> Inl d | Inr d \<Rightarrow> k d)"

fun pictures_stage :: "Picture list \<Rightarrow> bytes \<Rightarrow> stage_result" where
  "pictures_stage [] data = Inr data"
| "pictures_stage (p # ps) data =
     (if picture_type p = FrontCover \<and> length (picture_data p) > 0
      then (if picture_data p \<noteq> [] then Inl (picture_data p) else pictures_stage ps (picture_data p))
      else pictures_stage ps data)"

definition return_if_nonempty :: "bytes \<Rightarrow> stage_result" where
  \<comment> \<open>\<^verbatim>\<open>data = ...; if (!data.isEmpty()) return Success;\<close>\<close>
  "return_if_nonempty d = (if d \<noteq> [] then Inl d else Inr d)"

definition APE_stage :: "FileClass \<Rightarrow> TFile \<Rightarrow> bytes \<Rightarrow> stage_result" where
  "APE_stage c f data =
     (if file_class f = c
      then (case APETag f of Some t \<Rightarrow> return_if_nonempty (LoadEmbeddedAPEArt t) | None \<Rightarrow> Inr data)
      else Inr data)"

definition FLAC_stage :: "TFile \<Rightarrow> bytes \<Rightarrow> stage_result" where
  "FLAC_stage f data =
     (if file_class f = FLAC_File \<and> xiphComment f \<noteq> None
      then pictures_stage (flac_pictureList f) data else Inr data)"

definition Xiph_stage :: "Collaborators \<Rightarrow> TFile \<Rightarrow> bytes \<Rightarrow> stage_result" where
  "Xiph_stage L f data =
     (case file_tag_xiph f of
        Some x \<Rightarrow>
          next_stage (pictures_stage (xiph_pictureList x) data)
            (\<lambda>d. if xiph_contains x ''COVERART''
                  then return_if_nonempty
                         (QByteArray_fromBase64 L (join '' '' (xiph_field x ''COVERART'')))
                  else Inr d)
      | None \<Rightarrow> Inr data)"

definition APIC_picture :: "Frame \<Rightarrow> bytes" where
  "APIC_picture f = (case f of AttachedPictureFrame _ _ d \<Rightarrow> d | _ \<Rightarrow> [])"

definition MPEG_stage :: "TFile \<Rightarrow> bytes \<Rightarrow> stage_result" where
  "MPEG_stage f data =
     (if file_class f = MPEG_File
      then (case ID3v2Tag f of
              Some t \<Rightarrow>
                (case frameList t ''APIC'' of
                   [] \<Rightarrow> Inl data
                 | picture # _ \<Rightarrow> return_if_nonempty (APIC_picture picture))
            | None \<Rightarrow> Inr data)
      else Inr data)"

definition MP4_stage :: "TFile \<Rightarrow> bytes \<Rightarrow> stage_result" where
  "MP4_stage f data =
     (if file_class f = MP4_File
      then (case mp4_tag f of
              Some t \<Rightarrow>
                if MP4_isValid t ''covr''
                then (case MP4_toCoverArtList t ''covr'' of
                        [] \<Rightarrow> Inr data
                      | art # _ \<Rightarrow> return_if_nonempty (snd art))
                else Inr data
            | None \<Rightarrow> Inr data)
      else Inr data)"

definition LoadEmbeddedArt_stages :: "Collaborators \<Rightarrow> TFile \<Rightarrow> bytes \<Rightarrow> stage_result" where
  "LoadEmbeddedArt_stages L f data =
     next_stage (FLAC_stage f data) (\<lambda>d.
     next_stage (APE_stage WavPack_File f d) (\<lambda>d.
     next_stage (APE_stage APE_File f d) (\<lambda>d.
     next_stage (APE_stage MPC_File f d) (\<lambda>d.
     next_stage (Xiph_stage L f d) (\<lambda>d.
     next_stage (MPEG_stage f d) (\<lambda>d.
     MP4_stage f d))))))"

definition LoadEmbeddedArt ::
  "Collaborators \<Rightarrow> World \<Rightarrow> string \<Rightarrow> bytes \<Rightarrow> Result \<times> bytes \<times> World" where
  "LoadEmbeddedArt L w filename data =
     (if filename = [] then (FilenameMissing, data, w)
      else if \<not> exists_file w filename then (FileDoesNotExist, data, w)
      else (case GetFileRef w filename of
              (None, w1) \<Rightarrow> (FileOpenError, data, w1)
            | (Some f, w1) \<Rightarrow>
                (case LoadEmbeddedArt_stages L f data of
                   Inl d \<Rightarrow> (Success, d, w1)
                 | Inr d \<Rightarrow> (Success, d, w1))))"

section \<open>The writing operations\<close>

text \<open>
  A protobuf \<^verbatim>\<open>optional bool\<close> is a \<^typ>\<open>bool option\<close>. \<open>request_cover\<close> is the cover that
  \<^verbatim>\<open>LoadCoverFromRequest\<close> of the base class yields for the request. A writing operation
  returns its result, the file object as it stood when \<^verbatim>\<open>save()\<close> was called (\<open>None\<close> when
  the call returned earlier) and the world.
\<close>

record WriteFileRequest =
  metadata :: SongMetadata
  save_tags :: "bool option"
  save_playcount :: "bool option"
  save_rating :: "bool option"
  save_cover :: "bool option"
  request_cover :: Cover

definition is_set :: "bool option \<Rightarrow> bool" where
  \<comment> \<open>\<^verbatim>\<open>request.has_x() && request.x()\<close>\<close>
  "is_set b = (b = Some True)"

definition xiphComment_create :: "TFile \<Rightarrow> XiphComment" where
  \<comment> \<open>\<^verbatim>\<open>file->xiphComment(true)\<close>\<close>
  "xiphComment_create f = (case xiphComment f of Some x \<Rightarrow> x | None \<Rightarrow> empty_XiphComment)"

definition APETag_create :: "TFile \<Rightarrow> APE_Tag" where
  \<comment> \<open>\<^verbatim>\<open>file->APETag(true)\<close>\<close>
  "APETag_create f = (case APETag f of Some t \<Rightarrow> t | None \<Rightarrow> Map.empty)"

definition ID3v2Tag_create :: "TFile \<Rightarrow> ID3v2_Tag" where
  \<comment> \<open>\<^verbatim>\<open>file->ID3v2Tag(true)\<close>\<close>
  "ID3v2Tag_create f = (case ID3v2Tag f of Some t \<Rightarrow> t | None \<Rightarrow> [])"

definition WriteFile_generic :: "SongMetadata \<Rightarrow> TFile \<Rightarrow> TFile" where
  \<comment> \<open>The setters of \<^verbatim>\<open>fileref->tag()\<close> under \<^verbatim>\<open>if (save_tags)\<close>.\<close>
  "WriteFile_generic song f =
     f\<lparr>tag := map_option
                (\<lambda>tg. tg\<lparr>tag_title := title song, tag_artist := artist song,
                          tag_album := album song, tag_genre := genre song,
                          tag_comment := comment song,
                          tag_year := word_of_int (if year song \<le> 0 then 0 else year song),
                          tag_track := word_of_int (if track song \<le> 0 then 0 else track song)\<rparr>)
                (tag f)\<rparr>"

definition WriteFile_Xiph ::
  "Collaborators \<Rightarrow> SongMetadata \<Rightarrow> bool \<Rightarrow> bool \<Rightarrow> bool \<Rightarrow> XiphComment \<Rightarrow> XiphComment" where
  "WriteFile_Xiph L song tags pc rt x =
     (let x1 = (if tags then SetVorbisComments x song else x);
          x2 = (if pc then SetPlaycount_Xiph x1 (playcount song) else x1)
      in (if rt then SetRating_Xiph L x2 (rating song) else x2))"

definition WriteFile_APE ::
  "Collaborators \<Rightarrow> SongMetadata \<Rightarrow> bool \<Rightarrow> bool \<Rightarrow> bool \<Rightarrow> APE_Tag \<Rightarrow> APE_Tag" where
  "WriteFile_APE L song tags pc rt t =
     (let t1 = (if tags then SaveAPETag t song else t);
          t2 = (if pc then SetPlaycount_APE t1 (playcount song) else t1)
      in (if rt then SetRating_APE L t2 (rating song) else t2))"

definition WriteFile_ID3v2 ::
  "Collaborators \<Rightarrow> SongMetadata \<Rightarrow> bool \<Rightarrow> bool \<Rightarrow> bool \<Rightarrow> bool \<Rightarrow> Cover \<Rightarrow> ID3v2_Tag
   \<Rightarrow> ID3v2_Tag" where
  "WriteFile_ID3v2 L song tags pc rt cv cover t =
     (let t1 = (if tags then SaveID3v2Tag t song else t);
          t2 = (if pc then SetPlaycount_ID3v2 t1 (playcount song) else t1);
          t3 = (if rt then SetRating_ID3v2 L t2 (rating song) else t2)
      in (if cv then SetEmbeddedArt_ID3v2 t3 (cover_data cover) (cover_mime_type cover) else t3))"

definition WriteFile_MP4 ::
  "Collaborators \<Rightarrow> SongMetadata \<Rightarrow> bool \<Rightarrow> bool \<Rightarrow> bool \<Rightarrow> bool \<Rightarrow> Cover \<Rightarrow> MP4_Tag
   \<Rightarrow> MP4_Tag" where
  "WriteFile_MP4 L song tags pc rt cv cover t =
     (let t1 = (if tags
                then MP4_setItem ''cpil'' (BoolItem (compilation song))
                    (MP4_setItem ''aART'' (StringListItem [albumartist song])
                    (MP4_setItem atom_lyr (StringListItem [lyrics song])
                    (MP4_setItem atom_grp (StringListItem [grouping song])
                    (MP4_setItem atom_wrt (StringListItem [composer song])
                    (MP4_setItem ''disk''
                       (IntPairItem (if disc song \<le> 0 - 1 then 0 else disc song) 0) t)))))
                else t);
          t2 = (if pc then SetPlaycount_MP4 t1 (playcount song) else t1);
          t3 = (if rt then SetRating_MP4 L t2 (rating song) else t2)
      in (if cv then SetEmbeddedArt_MP4 t3 (cover_data cover) (cover_mime_type cover) else t3))"

definition WriteFile_tags ::
  "Collaborators \<Rightarrow> SongMetadata \<Rightarrow> bool \<Rightarrow> bool \<Rightarrow> bool \<Rightarrow> bool \<Rightarrow> Cover \<Rightarrow> TFile \<Rightarrow> TFile" where
  \<comment> \<open>\<^verbatim>\<open>WriteFile\<close> between the open and the save: the generic setters, the chain of
      \<^verbatim>\<open>dynamic_cast\<close> branches, and the Xiph comment of a file that is not a FLAC file.\<close>
  "WriteFile_tags L song tags pc rt cv cover f0 =
     (let f = (if tags then WriteFile_generic song f0 else f0);
          f1 = (case file_class f of
                  FLAC_File \<Rightarrow>
                    (let x = WriteFile_Xiph L song tags pc rt (xiphComment_create f);
                         fa = f\<lparr>xiphComment := Some x\<rparr>
                     in (if cv then SetEmbeddedArt_FLAC fa (cover_data cover) (cover_mime_type cover)
                         else fa))
                | WavPack_File \<Rightarrow> f\<lparr>APETag := Some (WriteFile_APE L song tags pc rt (APETag_create f))\<rparr>
                | APE_File \<Rightarrow> f\<lparr>APETag := Some (WriteFile_APE L song tags pc rt (APETag_create f))\<rparr>
                | MPC_File \<Rightarrow> f\<lparr>APETag := Some (WriteFile_APE L song tags pc rt (APETag_create f))\<rparr>
                | MPEG_File \<Rightarrow>
                    f\<lparr>ID3v2Tag := Some (WriteFile_ID3v2 L song tags pc rt cv cover (ID3v2Tag_create f))\<rparr>
                | MP4_File \<Rightarrow>
                    f\<lparr>mp4_tag := map_option (WriteFile_MP4 L song tags pc rt cv cover) (mp4_tag f)\<rparr>
                | WAV_File \<Rightarrow>
                    f\<lparr>ID3v2Tag := map_option (WriteFile_ID3v2 L song tags pc rt cv cover) (ID3v2Tag f)\<rparr>
                | _ \<Rightarrow> f)
      in (if file_class f1 \<noteq> FLAC_File
          then (case file_tag_xiph f1 of
                  Some x \<Rightarrow>
                    (let x1 = WriteFile_Xiph L song tags pc rt x;
                         x2 = (if cv then SetEmbeddedArt_Xiph x1 (cover_data cover) (cover_mime_type cover)
                               else x1)
                     in f1\<lparr>xiphComment := Some x2\<rparr>)
                | None \<Rightarrow> f1)
          else f1))"

definition save_result :: "bool \<Rightarrow> Result" where
  "save_result success = (if success then Success else FileSaveError)"

definition WriteFile ::
  "Collaborators \<Rightarrow> World \<Rightarrow> string \<Rightarrow> WriteFileRequest \<Rightarrow> Result \<times> TFile option \<times> World" where
  "WriteFile L w filename request =
     (if filename = [] then (FilenameMissing, None, w)
      else if \<not> exists_file w filename then (FileDoesNotExist, None, w)
      else (let song = metadata request;
                cover = request_cover request
            in (case GetFileRef w filename of
                  (None, w1) \<Rightarrow> (FileOpenError, None, w1)
                | (Some f, w1) \<Rightarrow>
                    (let f1 = WriteFile_tags L song (is_set (save_tags request))
                                (is_set (save_playcount request)) (is_set (save_rating request))
                                (is_set (save_cover request)) cover f
                     in (case save w1 filename of
                           (success, w2) \<Rightarrow> (save_result success, Some f1, w2))))))"

definition SaveEmbeddedArt ::
  "Collaborators \<Rightarrow> World \<Rightarrow> string \<Rightarrow> Cover \<Rightarrow> Result \<times> TFile option \<times> World" where
  \<comment> \<open>The second argument of the source is the request; here the cover that
      \<^verbatim>\<open>LoadCoverFromRequest\<close> yields for it.\<close>
  "SaveEmbeddedArt L w filename cover =
     (if filename = [] then (FilenameMissing, None, w)
      else if \<not> exists_file w filename then (FileDoesNotExist, None, w)
      else (case GetFileRef w filename of
              (None, w1) \<Rightarrow> (FileOpenError, None, w1)
            | (Some f, w1) \<Rightarrow>
                (let data = cover_data cover; mime_type = cover_mime_type cover;
                     changed =
                       (if file_class f = FLAC_File
                        then Some (SetEmbeddedArt_FLAC (f\<lparr>xiphComment := Some (xiphComment_create f)\<rparr>)
                                     data mime_type)
                        else (case file_tag_xiph f of
                                Some x \<Rightarrow> Some (f\<lparr>xiphComment := Some (SetEmbeddedArt_Xiph x data mime_type)\<rparr>)
                              | None \<Rightarrow>
                                  if file_class f = MPEG_File
                                  then Some (f\<lparr>ID3v2Tag := map_option (\<lambda>t. SetEmbeddedArt_ID3v2 t data mime_type)
                                                            (ID3v2Tag f)\<rparr>)
                                  else if file_class f = MP4_File
                                  then Some (f\<lparr>mp4_tag := map_option (\<lambda>t. SetEmbeddedArt_MP4 t data mime_type)
                                                           (mp4_tag f)\<rparr>)
                                  else None))
                 in (case changed of
                       None \<Rightarrow> (Unsupported, None, w1)
                     | Some f1 \<Rightarrow>
                         (case save w1 filename of
                            (success, w2) \<Rightarrow> (save_result success, Some f1, w2))))))"

definition SaveSongPlaycountToFile ::
  "Collaborators \<Rightarrow> World \<Rightarrow> string \<Rightarrow> 32 word \<Rightarrow> Result \<times> TFile option \<times> World" where
  "SaveSongPlaycountToFile L w filename pc =
     (if filename = [] then (FilenameMissing, None, w)
      else if \<not> exists_file w filename then (FileDoesNotExist, None, w)
      else (case GetFileRef w filename of
              (None, w1) \<Rightarrow> (FileOpenError, None, w1)
            | (Some f, w1) \<Rightarrow>
                (let ape = f\<lparr>APETag := Some (SetPlaycount_APE (APETag_create f) pc)\<rparr>;
                     changed =
                       (if file_class f = FLAC_File
                        then Some (f\<lparr>xiphComment := Some (SetPlaycount_Xiph (xiphComment_create f) pc)\<rparr>)
                        else if file_class f = WavPack_File then Some ape
                        else if file_class f = APE_File then Some ape
                        else (case file_tag_xiph f of
                                Some x \<Rightarrow> Some (f\<lparr>xiphComment := Some (SetPlaycount_Xiph x pc)\<rparr>)
                              | None \<Rightarrow>
                                  if file_class f = MPEG_File
                                  then Some (f\<lparr>ID3v2Tag := Some (SetPlaycount_ID3v2 (ID3v2Tag_create f) pc)\<rparr>)
                                  else if file_class f = MP4_File
                                  then Some (f\<lparr>mp4_tag := map_option (\<lambda>t. SetPlaycount_MP4 t pc) (mp4_tag f)\<rparr>)
                                  else if file_class f = MPC_File then Some ape
                                  else if file_class f = ASF_File
                                  then Some (f\<lparr>asf_tag :=
                                                 map_option
                                                   (\<lambda>t. if pc > 0
                                                        then ASF_addAttribute ''FMPS/Playcount''
                                                               (number (uint pc)) t
                                                        else t)
                                                   (asf_tag f)\<rparr>)
                                  else None))
                 in (case changed of
                       None \<Rightarrow> (Unsupported, None, w1)
                     | Some f1 \<Rightarrow>
                         (case save w1 filename of
                            (success, w2) \<Rightarrow> (save_result success, Some f1, w2))))))"

definition SaveSongRatingToFile ::
  "Collaborators \<Rightarrow> World \<Rightarrow> string \<Rightarrow> real \<Rightarrow> Result \<times> TFile option \<times> World" where
  "SaveSongRatingToFile L w filename r =
     (if filename = [] then (FilenameMissing, None, w)
      else if \<not> exists_file w filename then (FileDoesNotExist, None, w)
      else if r < 0 then (Success, None, w)
      else (case GetFileRef w filename of
              (None, w1) \<Rightarrow> (FileOpenError, None, w1)
            | (Some f, w1) \<Rightarrow>
                (let ape = f\<lparr>APETag := Some (SetRating_APE L (APETag_create f) r)\<rparr>;
                     changed =
                       (if file_class f = FLAC_File
                        then Some (f\<lparr>xiphComment := Some (SetRating_Xiph L (xiphComment_create f) r)\<rparr>)
                        else if file_class f = WavPack_File then Some ape
                        else if file_class f = APE_File then Some ape
                        else (case file_tag_xiph f of
                                Some x \<Rightarrow> Some (f\<lparr>xiphComment := Some (SetRating_Xiph L x r)\<rparr>)
                              | None \<Rightarrow>
                                  if file_class f = MPEG_File
                                  then Some (f\<lparr>ID3v2Tag := Some (SetRating_ID3v2 L (ID3v2Tag_create f) r)\<rparr>)
                                  else if file_class f = MP4_File
                                  then Some (f\<lparr>mp4_tag := map_option (\<lambda>t. SetRating_MP4 L t r) (mp4_tag f)\<rparr>)
                                  else if file_class f = ASF_File
                                  then Some (f\<lparr>asf_tag := map_option (\<lambda>t. SetRating_ASF L t r) (asf_tag f)\<rparr>)
                                  else if file_class f = MPC_File then Some ape
                                  else None))
                 in (case changed of
                       None \<Rightarrow> (Unsupported, None, w1)
                     | Some f1 \<Rightarrow>
                         (case save w1 filename of
                            (success, w2) \<Rightarrow> (save_result success, Some f1, w2))))))"

section \<open>Notions the properties are stated with\<close>

definition unset_or_positive :: "int \<Rightarrow> bool" where
  \<comment> \<open>Strictly positive, or the unset sentinel.\<close>
  "unset_or_positive v = (0 < v \<or> v = - 1)"

definition normalized :: "int \<Rightarrow> int" where
  \<comment> \<open>What the final normalization makes of a field.\<close>
  "normalized v = (if v \<le> 0 then - 1 else v)"



definition no_front_cover :: "Collaborators \<Rightarrow> TFile \<Rightarrow> bool" where
  \<comment> \<open>The file holds nothing any stage of \<^verbatim>\<open>LoadEmbeddedArt\<close> would take for a cover: no
      front-cover picture with data, no APE cover item with image bytes, no decodable
      \<^verbatim>\<open>COVERART\<close> field, no first \<^verbatim>\<open>APIC\<close> frame or \<^verbatim>\<open>covr\<close> entry with data.\<close>
  "no_front_cover L f =
     (\<not> has_front_cover (flac_pictureList f)
      \<and> (case APETag f of Some t \<Rightarrow> LoadEmbeddedAPEArt t = [] | None \<Rightarrow> True)
      \<and> (case xiphComment f of
            Some x \<Rightarrow> \<not> has_front_cover (xiph_pictureList x)
                      \<and> QByteArray_fromBase64 L (join '' '' (xiph_field x ''COVERART'')) = []
          | None \<Rightarrow> True)
      \<and> (case ID3v2Tag f of
            Some t \<Rightarrow> (case frameList t ''APIC'' of [] \<Rightarrow> True | p # _ \<Rightarrow> APIC_picture p = [])
          | None \<Rightarrow> True)
      \<and> (case mp4_tag f of
            Some t \<Rightarrow> (case MP4_toCoverArtList t ''covr'' of [] \<Rightarrow> True | a # _ \<Rightarrow> snd a = [])
          | None \<Rightarrow> True))"

section \<open>Concrete inputs\<close>

text \<open>
  A freshly constructed record (every protobuf field at its default), stand-ins for the
  collaborators, and a world with five files: an MP3, an MP4, two WMA and a FLAC file.
\<close>

definition new_SongMetadata :: SongMetadata where
  "new_SongMetadata =
     \<lparr>valid = False, title = [], album = [], artist = [], albumartist = [], track = 0,
      disc = 0, year = 0, originalyear = 0, genre = [], compilation = False, composer = [],
      performer = [], grouping = [], comment = [], lyrics = [], length_nanosec = 0,
      bitrate = 0, samplerate = 0, bitdepth = 0, url = [], basefilename = [],
      filetype = FileType_UNKNOWN, filesize = 0, mtime = 0, ctime = 0, playcount = 0,
      lastplayed = 0, lastseen = 0, art_embedded = False, rating = 0, ids = (\<lambda>_. [])\<rparr>"

definition example_Collaborators :: Collaborators where
  "example_Collaborators =
     \<lparr>QString_toFloat = (\<lambda>s. if s = ''0.5'' then 1 / 2 else if s = ''1'' then 1 else 0),
      QString_number_float = (\<lambda>r. if r = 1 / 2 then ''0.5'' else if r = 1 then ''1'' else ''0''),
      QByteArray_fromBase64 = (\<lambda>_. []),
      ConvertPOPMRating = (\<lambda>n. if n = 0 then 0 else 1),
      ConvertToPOPMRating = (\<lambda>r. if r \<le> 0 then 0 else 255),
      QUrl_toEncoded = (\<lambda>p. ''file://'' @ p),
      HAVE_TAGLIB_DSFFILE = True,
      HAVE_TAGLIB_DSDIFFFILE = True\<rparr>"

definition example_FileInfo :: FileInfo where
  "example_FileInfo =
     \<lparr>fi_fileName = ''song'', fi_size = 4096, fi_lastModified = Some 1700000000,
      fi_birthTime = None\<rparr>"

definition example_AudioProperties :: AudioProperties where
  "example_AudioProperties =
     \<lparr>ap_bitrate = 320, ap_sampleRate = 44100, ap_lengthInMilliseconds = 180000,
      ap_bitsPerSample = 0\<rparr>"

definition example_Tag :: "string \<Rightarrow> Tag" where
  "example_Tag a =
     \<lparr>tag_title = ''Time'', tag_artist = a, tag_album = ''Album'', tag_genre = ''Rock'',
      tag_comment = [], tag_year = 1973, tag_track = 0\<rparr>"

definition empty_TFile :: "FileClass \<Rightarrow> string \<Rightarrow> TFile" where
  "empty_TFile c a =
     \<lparr>file_class = c, audioProperties = Some example_AudioProperties, tag = Some (example_Tag a),
      xiphComment = None, flac_pictureList = [], APETag = None, hasID3v2Tag = False,
      ID3v2Tag = None, mp4_tag = None, asf_tag = None\<rparr>"

definition example_MPEG :: TFile where
  "example_MPEG =
     (empty_TFile MPEG_File ''Various Artists'')
       \<lparr>hasID3v2Tag := True,
        ID3v2Tag := Some [TextIdentificationFrame ''TPOS'' [''3/12'']]\<rparr>"

definition example_MP4 :: TFile where
  "example_MP4 =
     (empty_TFile MP4_File ''Pink Floyd'')\<lparr>mp4_tag := Some [''cpil'' \<mapsto> BoolItem True]\<rparr>"

definition example_ASF :: TFile where
  "example_ASF = (empty_TFile ASF_File ''various artists'')\<lparr>asf_tag := Some Map.empty\<rparr>"

definition example_ASF_rated :: TFile where
  "example_ASF_rated =
     (empty_TFile ASF_File ''Pink Floyd'')\<lparr>asf_tag := Some [''FMPS/Rating'' \<mapsto> [''0.5'']]\<rparr>"

definition example_FLAC :: TFile where
  "example_FLAC =
     (empty_TFile FLAC_File ''various artists'')
       \<lparr>xiphComment := Some (empty_XiphComment\<lparr>fieldListMap := [''COMPILATION'' \<mapsto> [''0'']]\<rparr>)\<rparr>"

definition example_World :: World where
  "example_World =
     \<lparr>files = [''a.mp3'' \<mapsto> (example_FileInfo, Some example_MPEG),
               ''a.m4a'' \<mapsto> (example_FileInfo, Some example_MP4),
               ''a.wma'' \<mapsto> (example_FileInfo, Some example_ASF),
               ''b.wma'' \<mapsto> (example_FileInfo, Some example_ASF_rated),
               ''a.flac'' \<mapsto> (example_FileInfo, Some example_FLAC)],
      save_succeeds = (\<lambda>_. True),
      currentSecsSinceEpoch = 1800000000,
      events = []\<rparr>"

definition example_Cover :: Cover where
  "example_Cover = \<lparr>cover_data = [], cover_mime_type = []\<rparr>"

definition example_request :: WriteFileRequest where
  "example_request =
     \<lparr>metadata = new_SongMetadata\<lparr>playcount := 5\<rparr>, save_tags = None,
      save_playcount = Some True, save_rating = None, save_cover = None,
      request_cover = example_Cover\<rparr>"

section \<open>Post-processing and the opened file\<close>

lemma normalize_steps:
  "(if track s \<le> 0 then s\<lparr>track := - 1\<rparr> else s) = s\<lparr>track := normalized (track s)\<rparr>"
  "(if disc s \<le> 0 then s\<lparr>disc := - 1\<rparr> else s) = s\<lparr>disc := normalized (disc s)\<rparr>"
  "(if year s \<le> 0 then s\<lparr>year := - 1\<rparr> else s) = s\<lparr>year := normalized (year s)\<rparr>"
  "(if originalyear s \<le> 0 then s\<lparr>originalyear := - 1\<rparr> else s)
     = s\<lparr>originalyear := normalized (originalyear s)\<rparr>"
  "(if samplerate s \<le> 0 then s\<lparr>samplerate := - 1\<rparr> else s)
     = s\<lparr>samplerate := normalized (samplerate s)\<rparr>"
  "(if bitdepth s \<le> 0 then s\<lparr>bitdepth := - 1\<rparr> else s) = s\<lparr>bitdepth := normalized (bitdepth s)\<rparr>"
  "(if bitrate s \<le> 0 then s\<lparr>bitrate := - 1\<rparr> else s) = s\<lparr>bitrate := normalized (bitrate s)\<rparr>"
  "(if lastplayed s \<le> 0 then s\<lparr>lastplayed := - 1\<rparr> else s)
     = s\<lparr>lastplayed := normalized (lastplayed s)\<rparr>"
  by (simp_all add: normalized_def)

lemma ReadFile_normalize_eq:
  "ReadFile_normalize s =
     s\<lparr>track := normalized (track s), disc := normalized (disc s), year := normalized (year s),
       originalyear := normalized (originalyear s), samplerate := normalized (samplerate s),
       bitdepth := normalized (bitdepth s), bitrate := normalized (bitrate s),
       lastplayed := normalized (lastplayed s)\<rparr>"
  by (simp add: ReadFile_normalize_def Let_def normalize_steps)

lemma unset_or_positive_normalized: "unset_or_positive (normalized v)"
  by (simp add: unset_or_positive_def normalized_def)

lemma ReadFile_opened:
  assumes "filename \<noteq> []" and "files w filename = Some (info, Some f)"
  shows "ReadFile L w filename song =
           (let song2 = ReadFile_post (ReadFile_format L f (ReadFile_generic L f
                          (ReadFile_fileinfo L w filename info song)))
            in (if filetype song2 = FileType_UNKNOWN then Unsupported else Success, song2,
                w\<lparr>events := events w @ [Opened filename]\<rparr>))"
  using assms by (simp add: ReadFile_def GetFileRef_def Let_def)

lemma ReadFile_post_eq:
  "ReadFile_post (d, c, s) = ReadFile_normalize (ReadFile_compilation c (ReadFile_disc d s))"
  by (simp add: ReadFile_post_def Let_def)

lemma ReadFile_reaches_post:
  assumes "ReadFile L w filename song = (res, song', w')" and "res = Success \<or> res = Unsupported"
  shows "\<exists>st. song' = ReadFile_post st"
proof -
  have ne: "filename \<noteq> []"
    using assms by (auto simp: ReadFile_def)
  obtain info f where opened: "files w filename = Some (info, Some f)"
    using assms ne
    by (auto simp: ReadFile_def GetFileRef_def Let_def split: option.splits prod.splits)
  from ReadFile_opened [OF ne opened, of L song] assms(1)
  have "song' = ReadFile_post (ReadFile_format L f (ReadFile_generic L f
                  (ReadFile_fileinfo L w filename info song)))"
    by (simp add: Let_def)
  then show ?thesis by blast
qed



lemma ReadFile_compilation_disc: "disc (ReadFile_compilation c s) = disc s"
  by (simp add: ReadFile_compilation_def)

lemma ReadFile_disc_parse:
  "disc (ReadFile_disc d s) =
     (if d = [] then disc s
      else if CHR ''/'' \<in> set d then QString_toInt (takeWhile (\<lambda>c. c \<noteq> CHR ''/'') d)
      else QString_toInt d)"
  by (simp add: ReadFile_disc_def indexOf_def left_def Let_def takeWhile_eq_take [symmetric])

lemma mp3_files: "files example_World ''a.mp3'' = Some (example_FileInfo, Some example_MPEG)"
  by (simp add: example_World_def)

lemma m4a_files: "files example_World ''a.m4a'' = Some (example_FileInfo, Some example_MP4)"
  by (simp add: example_World_def)


lemma flac_files: "files example_World ''a.flac'' = Some (example_FileInfo, Some example_FLAC)"
  by (simp add: example_World_def)

lemma staging_collapse: "st = (fst st, fst (snd st), snd (snd st))"
  by simp

section \<open>Path validation\<close>

text \<open>
  C1. Each of the six public operations returns FilenameMissing for the empty path,
  whatever the file system holds, and FileDoesNotExist for a non-empty path that names
  no file. In both cases the world comes back as it was: no \<^verbatim>\<open>GetFileRef\<close> was attempted,
  and the record, the buffer and the file are untouched.
\<close>

theorem public_operations_validate_path:
  "ReadFile L w [] song = (FilenameMissing, song, w)
   \<and> WriteFile L w [] request = (FilenameMissing, None, w)
   \<and> LoadEmbeddedArt L w [] data = (FilenameMissing, data, w)
   \<and> SaveEmbeddedArt L w [] cover = (FilenameMissing, None, w)
   \<and> SaveSongPlaycountToFile L w [] pc = (FilenameMissing, None, w)
   \<and> SaveSongRatingToFile L w [] r = (FilenameMissing, None, w)
   \<and> (filename \<noteq> [] \<and> \<not> exists_file w filename \<longrightarrow>
        ReadFile L w filename song = (FileDoesNotExist, song, w)
        \<and> WriteFile L w filename request = (FileDoesNotExist, None, w)
        \<and> LoadEmbeddedArt L w filename data = (FileDoesNotExist, data, w)
        \<and> SaveEmbeddedArt L w filename cover = (FileDoesNotExist, None, w)
        \<and> SaveSongPlaycountToFile L w filename pc = (FileDoesNotExist, None, w)
        \<and> SaveSongRatingToFile L w filename r = (FileDoesNotExist, None, w))"
proof -
  have none: "files w filename = None" if "\<not> exists_file w filename"
    using that unfolding exists_file_def by (cases "files w filename") auto
  show ?thesis
    by (auto simp: ReadFile_def WriteFile_def LoadEmbeddedArt_def SaveEmbeddedArt_def
        SaveSongPlaycountToFile_def SaveSongRatingToFile_def none)
qed

theorem public_operations_validate_path_witness:
  "''missing.mp3'' \<noteq> [] \<and> \<not> exists_file example_World ''missing.mp3''
   \<and> ReadFile example_Collaborators example_World ''missing.mp3'' new_SongMetadata
       = (FileDoesNotExist, new_SongMetadata, example_World)
   \<and> WriteFile example_Collaborators example_World ''missing.mp3'' example_request
       = (FileDoesNotExist, None, example_World)
   \<and> LoadEmbeddedArt example_Collaborators example_World ''missing.mp3'' []
       = (FileDoesNotExist, [], example_World)
   \<and> SaveEmbeddedArt example_Collaborators example_World ''missing.mp3'' example_Cover
       = (FileDoesNotExist, None, example_World)
   \<and> SaveSongPlaycountToFile example_Collaborators example_World ''missing.mp3'' 5
       = (FileDoesNotExist, None, example_World)
   \<and> SaveSongRatingToFile example_Collaborators example_World ''missing.mp3'' (1 / 2)
       = (FileDoesNotExist, None, example_World)
   \<and> ReadFile example_Collaborators example_World [] new_SongMetadata
       = (FilenameMissing, new_SongMetadata, example_World)"
proof -
  have missing: "\<not> exists_file example_World ''missing.mp3''"
    by (simp add: exists_file_def example_World_def)
  show ?thesis
    using missing
      public_operations_validate_path [of example_Collaborators example_World new_SongMetadata
        example_request "[]" example_Cover 5 "1 / 2" "''missing.mp3''"]
    by simp
qed

section \<open>Negative ratings\<close>

lemma SaveSongRatingToFile_opened:
  assumes "filename \<noteq> []" and "files w filename = Some (info, Some f)" and "0 \<le> q"
  shows "SaveSongRatingToFile L w filename q =
           (let ape = f\<lparr>APETag := Some (SetRating_APE L (APETag_create f) q)\<rparr>;
                changed =
                  (if file_class f = FLAC_File
                   then Some (f\<lparr>xiphComment := Some (SetRating_Xiph L (xiphComment_create f) q)\<rparr>)
                   else if file_class f = WavPack_File then Some ape
                   else if file_class f = APE_File then Some ape
                   else (case file_tag_xiph f of
                           Some x \<Rightarrow> Some (f\<lparr>xiphComment := Some (SetRating_Xiph L x q)\<rparr>)
                         | None \<Rightarrow>
                             if file_class f = MPEG_File
                             then Some (f\<lparr>ID3v2Tag := Some (SetRating_ID3v2 L (ID3v2Tag_create f) q)\<rparr>)
                             else if file_class f = MP4_File
                             then Some (f\<lparr>mp4_tag := map_option (\<lambda>t. SetRating_MP4 L t q) (mp4_tag f)\<rparr>)
                             else if file_class f = ASF_File
                             then Some (f\<lparr>asf_tag := map_option (\<lambda>t. SetRating_ASF L t q) (asf_tag f)\<rparr>)
                             else if file_class f = MPC_File then Some ape
                             else None))
            in (case changed of
                  None \<Rightarrow> (Unsupported, None, w\<lparr>events := events w @ [Opened filename]\<rparr>)
                | Some f1 \<Rightarrow>
                    (save_result (save_succeeds w filename), Some f1,
                     w\<lparr>events := events w @ [Opened filename, Saved filename]\<rparr>)))"
  using assms
  by (simp add: SaveSongRatingToFile_def exists_file_def GetFileRef_def save_def Let_def
      split: option.splits)

lemma file_tag_xiph_class:
  assumes "file_tag_xiph f = Some x"
  shows "file_class f \<noteq> FLAC_File \<and> file_class f \<noteq> WavPack_File \<and> file_class f \<noteq> APE_File
         \<and> xiphComment f = Some x"
  using assms by (auto simp: file_tag_xiph_def split: if_splits)

lemma file_tag_xiph_other:
  assumes "file_class f \<in> {MPEG_File, MP4_File, ASF_File, MPC_File, WAV_File, AIFF_File,
                             TrueAudio_File, Mod_File, S3M_File, XM_File, IT_File, DSF_File,
                             DSDIFF_File, Other_File}"
  shows "file_tag_xiph f = None"
  using assms by (auto simp: file_tag_xiph_def)

text \<open>
  C10. \<^verbatim>\<open>SaveSongRatingToFile\<close> with a rating below zero, on a non-empty path that names a
  file, returns Success at once: nothing was opened or saved (the world is unchanged) and
  no file object was touched. A rating of zero (any rating that is not negative) goes on:
  the file is opened, and when it opens, the rating routine of its format is applied to its
  tag and the file is saved, the result being that of the save. A FLAC file or an APE-tagged
  file gets its tag created if it has none, an Ogg file's Xiph comment, an MPEG file's
  ID3v2 tag (created if missing), an MP4 file's tag and an ASF file's tag are written;
  a file of any other class is reported Unsupported and not saved.
\<close>

theorem SaveSongRatingToFile_negative_rating:
  assumes "filename \<noteq> []" and "exists_file w filename"
  shows "(r < 0 \<longrightarrow> SaveSongRatingToFile L w filename r = (Success, None, w))
         \<and> Opened filename \<in> set (events (snd (snd (SaveSongRatingToFile L w filename 0))))
         \<and> (0 \<le> q \<and> files w filename = Some (info, Some f) \<longrightarrow>
              (file_class f = FLAC_File \<longrightarrow>
                 SaveSongRatingToFile L w filename q =
                   (save_result (save_succeeds w filename),
                    Some (f\<lparr>xiphComment := Some (SetRating_Xiph L (xiphComment_create f) q)\<rparr>),
                    w\<lparr>events := events w @ [Opened filename, Saved filename]\<rparr>))
              \<and> (file_class f \<in> {WavPack_File, APE_File, MPC_File} \<longrightarrow>
                   SaveSongRatingToFile L w filename q =
                     (save_result (save_succeeds w filename),
                      Some (f\<lparr>APETag := Some (SetRating_APE L (APETag_create f) q)\<rparr>),
                      w\<lparr>events := events w @ [Opened filename, Saved filename]\<rparr>))
              \<and> (file_tag_xiph f = Some x \<longrightarrow>
                   SaveSongRatingToFile L w filename q =
                     (save_result (save_succeeds w filename),
                      Some (f\<lparr>xiphComment := Some (SetRating_Xiph L x q)\<rparr>),
                      w\<lparr>events := events w @ [Opened filename, Saved filename]\<rparr>))
              \<and> (file_class f = MPEG_File \<longrightarrow>
                   SaveSongRatingToFile L w filename q =
                     (save_result (save_succeeds w filename),
                      Some (f\<lparr>ID3v2Tag := Some (SetRating_ID3v2 L (ID3v2Tag_create f) q)\<rparr>),
                      w\<lparr>events := events w @ [Opened filename, Saved filename]\<rparr>))
              \<and> (file_class f = MP4_File \<longrightarrow>
                   SaveSongRatingToFile L w filename q =
                     (save_result (save_succeeds w filename),
                      Some (f\<lparr>mp4_tag := map_option (\<lambda>t. SetRating_MP4 L t q) (mp4_tag f)\<rparr>),
                      w\<lparr>events := events w @ [Opened filename, Saved filename]\<rparr>))
              \<and> (file_class f = ASF_File \<longrightarrow>
                   SaveSongRatingToFile L w filename q =
                     (save_result (save_succeeds w filename),
                      Some (f\<lparr>asf_tag := map_option (\<lambda>t. SetRating_ASF L t q) (asf_tag f)\<rparr>),
                      w\<lparr>events := events w @ [Opened filename, Saved filename]\<rparr>))
              \<and> (file_class f \<in> {WAV_File, AIFF_File, TrueAudio_File, Mod_File, S3M_File, XM_File,
                                    IT_File, DSF_File, DSDIFF_File, Other_File} \<longrightarrow>
                   SaveSongRatingToFile L w filename q =
                     (Unsupported, None, w\<lparr>events := events w @ [Opened filename]\<rparr>)))"
proof -
  have neg: "r < 0 \<longrightarrow> SaveSongRatingToFile L w filename r = (Success, None, w)"
    using assms by (simp add: SaveSongRatingToFile_def)
  have opened: "Opened filename \<in> set (events (snd (snd (SaveSongRatingToFile L w filename 0))))"
    using assms
    by (auto simp: SaveSongRatingToFile_def GetFileRef_def save_def Let_def
        split: option.splits prod.splits)
  have writes: ?thesis if q: "0 \<le> q" and fl: "files w filename = Some (info, Some f)"
  proof -
    note o = SaveSongRatingToFile_opened [OF assms(1) fl q, of L]
    have flac: "file_class f = FLAC_File \<longrightarrow>
                 SaveSongRatingToFile L w filename q =
                   (save_result (save_succeeds w filename),
                    Some (f\<lparr>xiphComment := Some (SetRating_Xiph L (xiphComment_create f) q)\<rparr>),
                    w\<lparr>events := events w @ [Opened filename, Saved filename]\<rparr>)"
      by (simp add: o)
    have ape: "file_class f \<in> {WavPack_File, APE_File, MPC_File} \<longrightarrow>
                   SaveSongRatingToFile L w filename q =
                     (save_result (save_succeeds w filename),
                      Some (f\<lparr>APETag := Some (SetRating_APE L (APETag_create f) q)\<rparr>),
                      w\<lparr>events := events w @ [Opened filename, Saved filename]\<rparr>)"
      using file_tag_xiph_other [of f] by (auto simp: o Let_def)
    have xiph: "file_tag_xiph f = Some x \<longrightarrow>
                   SaveSongRatingToFile L w filename q =
                     (save_result (save_succeeds w filename),
                      Some (f\<lparr>xiphComment := Some (SetRating_Xiph L x q)\<rparr>),
                      w\<lparr>events := events w @ [Opened filename, Saved filename]\<rparr>)"
      using file_tag_xiph_class [of f x] by (auto simp: o Let_def)
    have mpeg: "file_class f = MPEG_File \<longrightarrow>
                   SaveSongRatingToFile L w filename q =
                     (save_result (save_succeeds w filename),
                      Some (f\<lparr>ID3v2Tag := Some (SetRating_ID3v2 L (ID3v2Tag_create f) q)\<rparr>),
                      w\<lparr>events := events w @ [Opened filename, Saved filename]\<rparr>)"
      using file_tag_xiph_other [of f] by (auto simp: o Let_def)
    have mp4: "file_class f = MP4_File \<longrightarrow>
                   SaveSongRatingToFile L w filename q =
                     (save_result (save_succeeds w filename),
                      Some (f\<lparr>mp4_tag := map_option (\<lambda>t. SetRating_MP4 L t q) (mp4_tag f)\<rparr>),
                      w\<lparr>events := events w @ [Opened filename, Saved filename]\<rparr>)"
      using file_tag_xiph_other [of f] by (auto simp: o Let_def)
    have asf: "file_class f = ASF_File \<longrightarrow>
                   SaveSongRatingToFile L w filename q =
                     (save_result (save_succeeds w filename),
                      Some (f\<lparr>asf_tag := map_option (\<lambda>t. SetRating_ASF L t q) (asf_tag f)\<rparr>),
                      w\<lparr>events := events w @ [Opened filename, Saved filename]\<rparr>)"
      using file_tag_xiph_other [of f] by (auto simp: o Let_def)
    have other: "file_class f \<in> {WAV_File, AIFF_File, TrueAudio_File, Mod_File, S3M_File, XM_File,
                                    IT_File, DSF_File, DSDIFF_File, Other_File} \<longrightarrow>
                   SaveSongRatingToFile L w filename q =
                     (Unsupported, None, w\<lparr>events := events w @ [Opened filename]\<rparr>)"
      using file_tag_xiph_other [of f] by (auto simp: o Let_def)
    from neg opened flac ape xiph mpeg mp4 asf other show ?thesis
      by blast
  qed
  show ?thesis
  proof (cases "0 \<le> q \<and> files w filename = Some (info, Some f)")
    case True
    then show ?thesis using writes by blast
  next
    case False
    with neg opened show ?thesis by blast
  qed
qed

theorem SaveSongRatingToFile_negative_rating_witness:
  "''a.m4a'' \<noteq> [] \<and> exists_file example_World ''a.m4a'' \<and> (- 1 :: real) < 0
   \<and> SaveSongRatingToFile example_Collaborators example_World ''a.m4a'' (- 1)
       = (Success, None, example_World)
   \<and> (0 :: real) \<le> 0
   \<and> files example_World ''a.m4a'' = Some (example_FileInfo, Some example_MP4)
   \<and> file_class example_MP4 = MP4_File
   \<and> SaveSongRatingToFile example_Collaborators example_World ''a.m4a'' 0
       = (Success,
          Some (example_MP4\<lparr>mp4_tag :=
                  Some [''cpil'' \<mapsto> BoolItem True, kMP4_FMPS_Rating_ID \<mapsto> StringListItem [''0'']]\<rparr>),
          example_World\<lparr>events := [Opened ''a.m4a'', Saved ''a.m4a'']\<rparr>)"
proof -
  have ex: "exists_file example_World ''a.m4a''"
    by (simp add: exists_file_def example_World_def)
  have ne: "''a.m4a'' \<noteq> []" by simp
  have cl: "file_class example_MP4 = MP4_File"
    by (simp add: example_MP4_def empty_TFile_def)
  have tg: "mp4_tag example_MP4 = Some [''cpil'' \<mapsto> BoolItem True]"
    by (simp add: example_MP4_def empty_TFile_def)
  have sv: "save_succeeds example_World ''a.m4a''" and ev: "events example_World = []"
    by (simp_all add: example_World_def)
  have nf: "QString_number_float example_Collaborators 0 = ''0''"
    by (simp add: example_Collaborators_def)
  from SaveSongRatingToFile_negative_rating [OF ne ex, of "- 1" example_Collaborators 0
         example_FileInfo example_MP4]
  show ?thesis
    using ex
    by (simp add: m4a_files cl tg sv ev nf save_result_def SetRating_MP4_def MP4_setItem_def)
qed

section \<open>Final normalization\<close>

text \<open>
  C5. A \<^verbatim>\<open>ReadFile\<close> call that reaches post-processing returns Success or Unsupported (the
  three error returns come before it). In the record it leaves, each of track, disc, year,
  original year, sample rate, bit depth, bitrate and last-played is strictly positive or
  the unset sentinel -1.
\<close>

theorem ReadFile_final_normalization:
  assumes "ReadFile L w filename song = (res, song', w')" and "res = Success \<or> res = Unsupported"
  shows "unset_or_positive (track song') \<and> unset_or_positive (disc song')
         \<and> unset_or_positive (year song') \<and> unset_or_positive (originalyear song')
         \<and> unset_or_positive (samplerate song') \<and> unset_or_positive (bitdepth song')
         \<and> unset_or_positive (bitrate song') \<and> unset_or_positive (lastplayed song')"
proof -
  from ReadFile_reaches_post [OF assms] obtain st where "song' = ReadFile_post st" ..
  then show ?thesis
    by (cases st)
      (simp add: ReadFile_post_def ReadFile_normalize_eq unset_or_positive_normalized Let_def)
qed

theorem ReadFile_final_normalization_witness:
  "fst (ReadFile example_Collaborators example_World ''a.mp3'' new_SongMetadata) = Success
   \<and> track (fst (snd (ReadFile example_Collaborators example_World ''a.mp3'' new_SongMetadata))) = - 1
   \<and> year (fst (snd (ReadFile example_Collaborators example_World ''a.mp3'' new_SongMetadata))) = 1973
   \<and> unset_or_positive
        (track (fst (snd (ReadFile example_Collaborators example_World ''a.mp3'' new_SongMetadata))))
   \<and> unset_or_positive
        (disc (fst (snd (ReadFile example_Collaborators example_World ''a.mp3'' new_SongMetadata))))
   \<and> unset_or_positive
        (year (fst (snd (ReadFile example_Collaborators example_World ''a.mp3'' new_SongMetadata))))
   \<and> unset_or_positive
        (originalyear (fst (snd (ReadFile example_Collaborators example_World ''a.mp3'' new_SongMetadata))))
   \<and> unset_or_positive
        (samplerate (fst (snd (ReadFile example_Collaborators example_World ''a.mp3'' new_SongMetadata))))
   \<and> unset_or_positive
        (bitdepth (fst (snd (ReadFile example_Collaborators example_World ''a.mp3'' new_SongMetadata))))
   \<and> unset_or_positive
        (bitrate (fst (snd (ReadFile example_Collaborators example_World ''a.mp3'' new_SongMetadata))))
   \<and> unset_or_positive
        (lastplayed (fst (snd (ReadFile example_Collaborators example_World ''a.mp3'' new_SongMetadata))))"
proof -
  let ?R = "ReadFile example_Collaborators example_World ''a.mp3'' new_SongMetadata"
  have res: "fst ?R = Success"
    by code_simp
  have tr: "track (fst (snd ?R)) = - 1"
    by code_simp
  have yr: "year (fst (snd ?R)) = 1973"
    by code_simp
  have "?R = (fst ?R, fst (snd ?R), snd (snd ?R))" by simp
  from ReadFile_final_normalization [OF this] res tr yr show ?thesis by simp
qed

section \<open>The disc number\<close>

text \<open>
  C9. Let the format-specific extraction of an opened file leave the staged disc string
  \<open>disc_staged\<close> and the record \<open>s\<close>. The disc step sets the record's disc number to the
  integer parse of the part before the first slash when the string is not empty and has a
  slash, to the parse of the whole string when it is not empty and has none, and leaves
  it as it was when the string is empty. The disc number \<^verbatim>\<open>ReadFile\<close> returns is that
  value after the final normalization (-1 when it is not positive).
\<close>

theorem ReadFile_disc_number:
  assumes "filename \<noteq> []" and "files w filename = Some (info, Some f)"
    and "ReadFile_format L f (ReadFile_generic L f (ReadFile_fileinfo L w filename info song))
           = (disc_staged, compilation_staged, s)"
  shows "(disc_staged \<noteq> [] \<and> CHR ''/'' \<in> set disc_staged \<longrightarrow>
            disc (ReadFile_disc disc_staged s)
              = QString_toInt (takeWhile (\<lambda>c. c \<noteq> CHR ''/'') disc_staged))
         \<and> (disc_staged \<noteq> [] \<and> CHR ''/'' \<notin> set disc_staged \<longrightarrow>
              disc (ReadFile_disc disc_staged s) = QString_toInt disc_staged)
         \<and> (disc_staged = [] \<longrightarrow> disc (ReadFile_disc disc_staged s) = disc s)
         \<and> disc (fst (snd (ReadFile L w filename song)))
             = normalized (disc (ReadFile_disc disc_staged s))"
  using assms(3)
  by (simp add: ReadFile_opened [OF assms(1,2)] Let_def ReadFile_post_eq ReadFile_normalize_eq
      ReadFile_compilation_disc ReadFile_disc_parse)

theorem ReadFile_disc_number_witness:
  "fst (ReadFile_format example_Collaborators example_MPEG
          (ReadFile_generic example_Collaborators example_MPEG
             (ReadFile_fileinfo example_Collaborators example_World ''a.mp3'' example_FileInfo
                new_SongMetadata))) = ''3/12''
   \<and> disc (fst (snd (ReadFile example_Collaborators example_World ''a.mp3'' new_SongMetadata))) = 3
   \<and> fst (ReadFile_format example_Collaborators example_FLAC
          (ReadFile_generic example_Collaborators example_FLAC
             (ReadFile_fileinfo example_Collaborators example_World ''a.flac'' example_FileInfo
                new_SongMetadata))) = []
   \<and> disc (fst (snd (ReadFile example_Collaborators example_World ''a.flac'' new_SongMetadata))) = - 1"
proof -
  let ?mp3 = "ReadFile_format example_Collaborators example_MPEG
                (ReadFile_generic example_Collaborators example_MPEG
                   (ReadFile_fileinfo example_Collaborators example_World ''a.mp3'' example_FileInfo
                      new_SongMetadata))"
  let ?flac = "ReadFile_format example_Collaborators example_FLAC
                 (ReadFile_generic example_Collaborators example_FLAC
                    (ReadFile_fileinfo example_Collaborators example_World ''a.flac''
                       example_FileInfo new_SongMetadata))"
  have d1: "fst ?mp3 = ''3/12''"
    by code_simp
  have d2: "fst ?flac = []"
    by code_simp
  have s2: "disc (snd (snd ?flac)) = 0"
    by code_simp
  have p: "QString_toInt ''3'' = 3"
    by code_simp
  have ne1: "''a.mp3'' \<noteq> []" and ne2: "''a.flac'' \<noteq> []" by simp_all
  from ReadFile_disc_number [OF ne1 mp3_files staging_collapse, of example_Collaborators new_SongMetadata]
       ReadFile_disc_number [OF ne2 flac_files staging_collapse, of example_Collaborators new_SongMetadata]
  show ?thesis
    by (simp add: d1 d2 s2 p normalized_def)
qed

section \<open>The compilation flag\<close>




lemma frameList_remove_front:
  assumes "frameList t i = f # fs"
  shows "frameList (removeFrame f t) i = fs"
    and "filter (\<lambda>g. frameID g \<noteq> i) (removeFrame f t) = filter (\<lambda>g. frameID g \<noteq> i) t"
proof -
  from assms have "f \<in> set (filter (\<lambda>g. frameID g = i) t)"
    by (simp add: frameList_def)
  then have fid: "frameID f = i" by simp
  show "frameList (removeFrame f t) i = fs"
    using assms by (simp add: frameList_def removeFrame_def filter_remove1)
  have "f \<notin> set (filter (\<lambda>g. frameID g \<noteq> i) t)"
    using fid by simp
  then show "filter (\<lambda>g. frameID g \<noteq> i) (removeFrame f t) = filter (\<lambda>g. frameID g \<noteq> i) t"
    by (simp add: removeFrame_def filter_remove1 remove1_idem)
qed

lemma filter_other_id_none:
  assumes "frameList t i = []"
  shows "filter (\<lambda>g. frameID g \<noteq> i) t = t"
  using assms by (auto simp: frameList_def filter_empty_conv filter_id_conv)

lemma store_and_clear_eq:
  "store_and_clear i b t = (b @ frameList t i, filter (\<lambda>g. frameID g \<noteq> i) t)"
proof (induction i b t rule: store_and_clear.induct)
  case (1 i b t)
  show ?case
  proof (cases "frameList t i")
    case Nil
    then show ?thesis
      by (subst store_and_clear.simps) (simp add: filter_other_id_none)
  next
    case (Cons f fs)
    from "1.IH" [OF Cons] Cons frameList_remove_front [OF Cons] show ?thesis
      by (subst store_and_clear.simps) simp
  qed
qed

lemma update_and_add_Suc: "update_and_add v (Suc n) bs t = t @ bs"
  by (induction bs arbitrary: n t) (simp_all add: addFrame_def)

section \<open>The text-frame rewrite\<close>

text \<open>
  C6. \<^verbatim>\<open>SetTextFrame\<close> on any tag, identifier and value leaves the frames of other
  identifiers as they were and in their order, and removes every frame of the target
  identifier. With an empty value nothing is added. Otherwise one frame per removed frame
  is added behind them, in the old order, the first with its text replaced by the value
  and the others as they were; when there was none, one fresh text frame with the value.
\<close>

theorem SetTextFrame_rewrite:
  "SetTextFrame i v t =
     filter (\<lambda>g. frameID g \<noteq> i) t
     @ (if v = [] then []
        else (case frameList t i of
                [] \<Rightarrow> [TextIdentificationFrame i [v]]
              | f # fs \<Rightarrow> Frame_setText v f # fs))"
  by (simp add: SetTextFrame_def store_and_clear_eq update_and_add_Suc addFrame_def
      split: list.splits)

theorem SetTextFrame_rewrite_witness:
  "SetTextFrame ''TPOS'' ''2''
     [TextIdentificationFrame ''TPOS'' [''1/2''], TextIdentificationFrame ''TCOM'' [''Bach''],
      TextIdentificationFrame ''TPOS'' [''9'']]
   = [TextIdentificationFrame ''TCOM'' [''Bach''], TextIdentificationFrame ''TPOS'' [''2''],
      TextIdentificationFrame ''TPOS'' [''9'']]
   \<and> SetTextFrame ''TPOS'' [] [TextIdentificationFrame ''TPOS'' [''1/2''],
                                TextIdentificationFrame ''TCOM'' [''Bach'']]
       = [TextIdentificationFrame ''TCOM'' [''Bach'']]
   \<and> SetTextFrame ''TPOS'' ''2'' [TextIdentificationFrame ''TCOM'' [''Bach'']]
       = [TextIdentificationFrame ''TCOM'' [''Bach''], TextIdentificationFrame ''TPOS'' [''2'']]"
  using SetTextFrame_rewrite [of "''TPOS''" "''2''"
          "[TextIdentificationFrame ''TPOS'' [''1/2''], TextIdentificationFrame ''TCOM'' [''Bach''],
            TextIdentificationFrame ''TPOS'' [''9'']]"]
        SetTextFrame_rewrite [of "''TPOS''" "[]"
          "[TextIdentificationFrame ''TPOS'' [''1/2''], TextIdentificationFrame ''TCOM'' [''Bach'']]"]
        SetTextFrame_rewrite [of "''TPOS''" "''2''" "[TextIdentificationFrame ''TCOM'' [''Bach'']]"]
  by (simp add: frameList_def)

section \<open>Writing to an ASF file\<close>

text \<open>
  C3. \<^verbatim>\<open>WriteFile\<close> has no branch for \<^verbatim>\<open>TagLib::ASF::File\<close>. On the WMA file of the example
  world, a request with \<^verbatim>\<open>save_playcount\<close> set and the play count 5 is saved with Success
  and the ASF tag has no \<^verbatim>\<open>FMPS/Playcount\<close> attribute; a request with \<^verbatim>\<open>save_rating\<close> set and
  the rating 0.5 leaves it without \<^verbatim>\<open>FMPS/Rating\<close>. \<^verbatim>\<open>SaveSongPlaycountToFile\<close> and
  \<^verbatim>\<open>SaveSongRatingToFile\<close> on the same file do write the two attributes.
\<close>

theorem WriteFile_ASF_playcount_not_written:
  "fst (WriteFile example_Collaborators example_World ''a.wma'' example_request) = Success
   \<and> file_class example_ASF = ASF_File
   \<and> is_set (save_playcount example_request)
   \<and> playcount (metadata example_request) = 5
   \<and> map_option (\<lambda>f. map_option (\<lambda>t. t ''FMPS/Playcount'') (asf_tag f))
        (fst (snd (WriteFile example_Collaborators example_World ''a.wma'' example_request)))
       = Some (Some None)
   \<and> map_option (\<lambda>f. map_option (\<lambda>t. t ''FMPS/Playcount'') (asf_tag f))
        (fst (snd (SaveSongPlaycountToFile example_Collaborators example_World ''a.wma'' 5)))
       = Some (Some (Some [''5'']))
   \<and> map_option (\<lambda>f. map_option (\<lambda>t. t ''FMPS/Rating'') (asf_tag f))
        (fst (snd (WriteFile example_Collaborators example_World ''a.wma''
                     (example_request\<lparr>metadata := new_SongMetadata\<lparr>rating := 1 / 2\<rparr>,
                                      save_rating := Some True\<rparr>))))
       = Some (Some None)
   \<and> map_option (\<lambda>f. map_option (\<lambda>t. t ''FMPS/Rating'') (asf_tag f))
        (fst (snd (SaveSongRatingToFile example_Collaborators example_World ''a.wma'' (1 / 2))))
       = Some (Some (Some [''0.5'']))"
  by code_simp

lemma digits_fuel_nonempty: "digits_fuel k n \<noteq> []"
  by (cases k) simp_all

lemma number_nonempty: "number i \<noteq> []"
  by (simp add: number_def digits_def digits_fuel_nonempty)

lemma upper_FMPS_PLAYCOUNT: "upper ''FMPS_PLAYCOUNT'' = ''FMPS_PLAYCOUNT''"
  and upper_FMPS_Playcount: "upper ''FMPS_Playcount'' = ''FMPS_PLAYCOUNT''"
  and upper_FMPS_RATING: "upper ''FMPS_RATING'' = ''FMPS_RATING''"
  and upper_FMPS_Rating: "upper ''FMPS_Rating'' = ''FMPS_RATING''"
  by (simp_all add: upper_def to_upper_def)

lemma first_of_filter:
  "filter P t = x # xs \<Longrightarrow>
     length (takeWhile (\<lambda>f. \<not> P f) t) < length t \<and> t ! length (takeWhile (\<lambda>f. \<not> P f) t) = x"
proof (induction t)
  case Nil
  then show ?case by simp
next
  case (Cons a t)
  then show ?case by (cases "P a") auto
qed

lemma GetPOPMFrameFromTag_position:
  assumes "GetPOPMFrameFromTag t = (k, t1)"
  shows "k < length t1 \<and> (\<exists>r c. t1 ! k = PopularimeterFrame r c)
         \<and> (\<forall>f. f \<in> set t \<longrightarrow> f \<in> set t1)"
proof (cases "\<exists>r c fs. frameList t ''POPM'' = PopularimeterFrame r c # fs")
  case True
  then obtain r c fs where fl: "frameList t ''POPM'' = PopularimeterFrame r c # fs" by blast
  then have "filter (\<lambda>f. frameID f = ''POPM'') t = PopularimeterFrame r c # fs"
    by (simp add: frameList_def)
  from first_of_filter [OF this] assms fl show ?thesis
    by (auto simp: GetPOPMFrameFromTag_def)
next
  case False
  then have "GetPOPMFrameFromTag t = (length t, t @ [PopularimeterFrame 0 0])"
    by (auto simp: GetPOPMFrameFromTag_def addFrame_def split: list.splits Frame.splits)
  with assms show ?thesis by auto
qed

lemma mem_list_update_other:
  assumes "f \<in> set t" and "k < length t" and "f \<noteq> t ! k"
  shows "f \<in> set (t[k := g])"
proof -
  from assms(1) obtain j where j: "j < length t" "t ! j = f"
    by (auto simp: in_set_conv_nth)
  with assms(3) have "j \<noteq> k" by auto
  with j have "t[k := g] ! j = f" by simp
  with j(1) show ?thesis
    by (metis length_list_update nth_mem)
qed

lemma SetUserTextFrame_member:
  "UserTextIdentificationFrame [d, v] \<in> set (SetUserTextFrame d v t)"
  by (simp add: SetUserTextFrame_def addFrame_def Let_def)

lemma SetPlaycount_ID3v2_frames:
  "UserTextIdentificationFrame [''FMPS_Playcount'', number (uint pc)] \<in> set (SetPlaycount_ID3v2 t pc)
   \<and> (\<exists>r. PopularimeterFrame r pc \<in> set (SetPlaycount_ID3v2 t pc))"
proof -
  let ?u = "SetUserTextFrame ''FMPS_Playcount'' (number (uint pc)) t"
  obtain k t1 where g: "GetPOPMFrameFromTag ?u = (k, t1)"
    by (cases "GetPOPMFrameFromTag ?u") auto
  from GetPOPMFrameFromTag_position [OF g]
  obtain r c where k: "k < length t1" and popm: "t1 ! k = PopularimeterFrame r c"
    and sub: "\<And>f. f \<in> set ?u \<Longrightarrow> f \<in> set t1"
    by blast
  have res: "SetPlaycount_ID3v2 t pc = t1[k := PopularimeterFrame r pc]"
    by (simp add: SetPlaycount_ID3v2_def g popm POPM_setCounter_def)
  have "UserTextIdentificationFrame [''FMPS_Playcount'', number (uint pc)] \<in> set t1"
    by (rule sub) (rule SetUserTextFrame_member)
  then have "UserTextIdentificationFrame [''FMPS_Playcount'', number (uint pc)]
               \<in> set (t1[k := PopularimeterFrame r pc])"
    using k popm by (intro mem_list_update_other) auto
  moreover have "PopularimeterFrame r pc \<in> set (t1[k := PopularimeterFrame r pc])"
    using k by (simp add: set_update_memI)
  ultimately show ?thesis
    unfolding res by blast
qed

section \<open>Writing the play count\<close>

text \<open>
  C4, as the code has it. On a Xiph comment, an APE tag and an MP4 tag a play count above
  zero stores, under the format's play-count key, the decimal text of the count cast to
  \<^verbatim>\<open>int\<close> (the count itself below $2^{31}$); on an ASF tag it stores the decimal text of the
  count. On these four a play count of zero removes the field. On an ID3v2 tag nothing is
  removed: for every count, zero included, the tag afterwards holds the user text frame
  \<^verbatim>\<open>FMPS_Playcount\<close> with the count's decimal text and a \<^verbatim>\<open>POPM\<close> frame with that counter.
\<close>

theorem SetPlaycount_native_field:
  "(0 < pc \<longrightarrow>
      xiph_field (SetPlaycount_Xiph x pc) ''FMPS_PLAYCOUNT'' = [number (sint pc)]
      \<and> APE_item (SetPlaycount_APE a pc) ''FMPS_PLAYCOUNT'' = TextItem [number (sint pc)]
      \<and> SetPlaycount_MP4 m pc kMP4_FMPS_Playcount_ID = Some (StringListItem [number (sint pc)])
      \<and> SetPlaycount_ASF s pc ''FMPS/Playcount'' = Some [number (uint pc)])
   \<and> \<not> xiph_contains (SetPlaycount_Xiph x 0) ''FMPS_PLAYCOUNT''
   \<and> SetPlaycount_APE a 0 ''FMPS_PLAYCOUNT'' = None
   \<and> SetPlaycount_MP4 m 0 kMP4_FMPS_Playcount_ID = None
   \<and> SetPlaycount_ASF s 0 ''FMPS/Playcount'' = None
   \<and> UserTextIdentificationFrame [''FMPS_Playcount'', number (uint pc)] \<in> set (SetPlaycount_ID3v2 t pc)
   \<and> (\<exists>r. PopularimeterFrame r pc \<in> set (SetPlaycount_ID3v2 t pc))"
  using SetPlaycount_ID3v2_frames [of pc t]
  by (simp add: SetPlaycount_Xiph_def SetPlaycount_APE_def SetPlaycount_MP4_def
      SetPlaycount_ASF_def addField_def removeFields_def xiph_field_def xiph_contains_def
      APE_setItem_def APE_removeItem_def APE_item_def MP4_setItem_def MP4_removeItem_def
      ASF_setAttribute_def ASF_removeItem_def upper_FMPS_PLAYCOUNT upper_FMPS_Playcount
      number_nonempty)

theorem SetPlaycount_native_field_witness:
  "(0 :: 32 word) < 5
   \<and> xiph_field (SetPlaycount_Xiph empty_XiphComment 5) ''FMPS_PLAYCOUNT'' = [''5'']
   \<and> APE_item (SetPlaycount_APE Map.empty 5) ''FMPS_PLAYCOUNT'' = TextItem [''5'']
   \<and> SetPlaycount_MP4 Map.empty 5 kMP4_FMPS_Playcount_ID = Some (StringListItem [''5''])
   \<and> SetPlaycount_ASF Map.empty 5 ''FMPS/Playcount'' = Some [''5'']
   \<and> \<not> xiph_contains (SetPlaycount_Xiph (SetPlaycount_Xiph empty_XiphComment 5) 0) ''FMPS_PLAYCOUNT''"
proof -
  have n: "number 5 = ''5''"
    by code_simp
  from SetPlaycount_native_field [of 5 empty_XiphComment Map.empty Map.empty Map.empty "[]"]
       SetPlaycount_native_field [of 5 "SetPlaycount_Xiph empty_XiphComment 5" Map.empty Map.empty Map.empty "[]"]
  show ?thesis
    by (simp add: n)
qed

text \<open>
  The claim as stated fails on ID3v2: a play count of zero on an empty tag stores the text
  "0" and a \<^verbatim>\<open>POPM\<close> frame, and on a tag that held the count 7 it replaces the 7 by "0"
  rather than removing the frame. It also fails above $2^{31} - 1$, where the Xiph field gets
  the text of a negative number.
\<close>

theorem SetPlaycount_counterexample:
  "SetPlaycount_ID3v2 [] 0
     = [UserTextIdentificationFrame [''FMPS_Playcount'', ''0''], PopularimeterFrame 0 0]
   \<and> SetPlaycount_ID3v2 [UserTextIdentificationFrame [''FMPS_Playcount'', ''7''], PopularimeterFrame 0 7] 0
     = [PopularimeterFrame 0 0, UserTextIdentificationFrame [''FMPS_Playcount'', ''0'']]
   \<and> (0 :: 32 word) < 3000000000
   \<and> xiph_field (SetPlaycount_Xiph empty_XiphComment 3000000000) ''FMPS_PLAYCOUNT''
      = [number (- 1294967296)]"
proof -
  have a: "SetPlaycount_ID3v2 [] 0
     = [UserTextIdentificationFrame [''FMPS_Playcount'', ''0''], PopularimeterFrame 0 0]"
    by code_simp
  have b: "SetPlaycount_ID3v2 [UserTextIdentificationFrame [''FMPS_Playcount'', ''7''], PopularimeterFrame 0 7] 0
     = [PopularimeterFrame 0 0, UserTextIdentificationFrame [''FMPS_Playcount'', ''0'']]"
    by code_simp
  have c: "xiph_field (SetPlaycount_Xiph empty_XiphComment 3000000000) ''FMPS_PLAYCOUNT''
      = [number (- 1294967296)]"
    by (simp add: SetPlaycount_Xiph_def addField_def removeFields_def xiph_field_def
        upper_FMPS_PLAYCOUNT number_nonempty empty_XiphComment_def)
  show ?thesis using a b c by simp
qed

section \<open>Writing the rating\<close>

text \<open>
  What the four rating routines leave in the tag. On a Xiph comment and an APE tag a rating
  above zero stores the rating's text under the format's rating key (TagLib does not store
  an empty Xiph value, so the text is taken to be non-empty there), and a rating of zero or
  below removes the field. On an MP4 tag the rating item is replaced by the rating's text
  whatever the rating. On an ASF tag the rating's text is put behind the attributes of
  \<^verbatim>\<open>FMPS/Rating\<close> that are already there, whatever the rating.
\<close>

lemma SetRating_fields:
  "(0 < r \<and> QString_number_float L r \<noteq> [] \<longrightarrow>
      xiph_field (SetRating_Xiph L x r) ''FMPS_RATING'' = [QString_number_float L r])
   \<and> (0 < r \<longrightarrow> APE_item (SetRating_APE L a r) ''FMPS_RATING'' = TextItem [QString_number_float L r])
   \<and> (r \<le> 0 \<longrightarrow>
        \<not> xiph_contains (SetRating_Xiph L x r) ''FMPS_RATING''
        \<and> SetRating_APE L a r ''FMPS_RATING'' = None)
   \<and> SetRating_MP4 L m r kMP4_FMPS_Rating_ID = Some (StringListItem [QString_number_float L r])
   \<and> ASF_attributes (SetRating_ASF L s r) ''FMPS/Rating''
       = ASF_attributes s ''FMPS/Rating'' @ [QString_number_float L r]"
  by (auto simp: SetRating_Xiph_def SetRating_APE_def SetRating_MP4_def SetRating_ASF_def
      addField_def removeFields_def xiph_field_def xiph_contains_def APE_setItem_def
      APE_removeItem_def APE_item_def MP4_setItem_def ASF_addAttribute_def ASF_setAttribute_def
      ASF_attributes_def upper_FMPS_RATING upper_FMPS_Rating split: option.splits)

text \<open>
  C7. The rating routine for ASF tags does not set the rating of a tag that has one. On the
  second WMA file of the example world, whose tag holds the rating 0.5,
  \<^verbatim>\<open>SaveSongRatingToFile\<close> with the rating 1 is saved with Success and leaves the attributes
  "0.5", "1" in this order; \<^verbatim>\<open>ReadFile\<close>'s extraction reads the first and finds the rating
  0.5 in the saved file. On the same tag, the routine for MP4 tags and the play-count
  routine for ASF tags, which calls \<^verbatim>\<open>setAttribute\<close>, replace the old value. On a tag without
  a rating the ASF routine does store it, also for a rating of zero.
\<close>

theorem SetRating_ASF_keeps_old_rating:
  "fst (SaveSongRatingToFile example_Collaborators example_World ''b.wma'' 1) = Success
   \<and> map_option (\<lambda>f. map_option (\<lambda>t. ASF_attributes t ''FMPS/Rating'') (asf_tag f))
        (fst (snd (SaveSongRatingToFile example_Collaborators example_World ''b.wma'' 1)))
       = Some (Some [''0.5'', ''1''])
   \<and> map_option
        (\<lambda>f. rating (snd (snd (ReadFile_format example_Collaborators f new_SongMetadata))))
        (fst (snd (SaveSongRatingToFile example_Collaborators example_World ''b.wma'' 1)))
       = Some (1 / 2)
   \<and> ASF_attributes (SetRating_ASF example_Collaborators [''FMPS/Rating'' \<mapsto> [''0.5'']] 1)
        ''FMPS/Rating'' = [''0.5'', ''1'']
   \<and> SetRating_MP4 example_Collaborators [kMP4_FMPS_Rating_ID \<mapsto> StringListItem [''0.5'']] 1
        kMP4_FMPS_Rating_ID = Some (StringListItem [''1''])
   \<and> ASF_attributes (SetPlaycount_ASF [''FMPS/Playcount'' \<mapsto> [''7'']] 5) ''FMPS/Playcount''
       = [''5'']
   \<and> ASF_attributes (SetRating_ASF example_Collaborators Map.empty 0) ''FMPS/Rating'' = [''0'']"
proof -
  let ?S = "SaveSongRatingToFile example_Collaborators example_World ''b.wma'' 1"
  have a: "fst ?S = Success"
    by code_simp
  have b: "map_option (\<lambda>f. map_option (\<lambda>t. ASF_attributes t ''FMPS/Rating'') (asf_tag f))
             (fst (snd ?S)) = Some (Some [''0.5'', ''1''])"
    by code_simp
  have c: "map_option
             (\<lambda>f. rating (snd (snd (ReadFile_format example_Collaborators f new_SongMetadata))))
             (fst (snd ?S)) = Some (1 / 2)"
    by code_simp
  have d: "ASF_attributes (SetRating_ASF example_Collaborators [''FMPS/Rating'' \<mapsto> [''0.5'']] 1)
             ''FMPS/Rating'' = [''0.5'', ''1'']"
    by code_simp
  have e: "SetRating_MP4 example_Collaborators [kMP4_FMPS_Rating_ID \<mapsto> StringListItem [''0.5'']] 1
             kMP4_FMPS_Rating_ID = Some (StringListItem [''1''])"
    by code_simp
  have f: "ASF_attributes (SetPlaycount_ASF [''FMPS/Playcount'' \<mapsto> [''7'']] 5) ''FMPS/Playcount''
             = [''5'']"
    by code_simp
  have g: "ASF_attributes (SetRating_ASF example_Collaborators Map.empty 0) ''FMPS/Rating'' = [''0'']"
    by code_simp
  from a b c d e f g show ?thesis by blast
qed

lemma pictures_stage_none: "\<not> has_front_cover ps \<Longrightarrow> pictures_stage ps d = Inr d"
  by (induction ps) (auto simp: has_front_cover_def)

lemma FLAC_stage_none: "no_front_cover L f \<Longrightarrow> FLAC_stage f [] = Inr []"
  by (simp add: FLAC_stage_def no_front_cover_def pictures_stage_none)

lemma APE_stage_none: "no_front_cover L f \<Longrightarrow> APE_stage c f [] = Inr []"
  by (auto simp: APE_stage_def no_front_cover_def return_if_nonempty_def split: option.splits)

lemma Xiph_stage_none: "no_front_cover L f \<Longrightarrow> Xiph_stage L f [] = Inr []"
  by (auto simp: Xiph_stage_def no_front_cover_def return_if_nonempty_def file_tag_xiph_def
      pictures_stage_none next_stage_def split: option.splits)

lemma MPEG_stage_none:
  "no_front_cover L f \<Longrightarrow> MPEG_stage f [] = Inr [] \<or> MPEG_stage f [] = Inl []"
  by (auto simp: MPEG_stage_def no_front_cover_def return_if_nonempty_def
      split: option.splits list.splits)

lemma MP4_stage_none: "no_front_cover L f \<Longrightarrow> MP4_stage f [] = Inr []"
  by (auto simp: MP4_stage_def no_front_cover_def return_if_nonempty_def
      split: option.splits list.splits)

lemma LoadEmbeddedArt_stages_none:
  assumes "no_front_cover L f"
  shows "LoadEmbeddedArt_stages L f [] = Inr [] \<or> LoadEmbeddedArt_stages L f [] = Inl []"
  using MPEG_stage_none [OF assms]
  by (auto simp: LoadEmbeddedArt_stages_def next_stage_def FLAC_stage_none [OF assms]
      APE_stage_none [OF assms] Xiph_stage_none [OF assms] MP4_stage_none [OF assms])

lemma LoadEmbeddedArt_opened:
  assumes "filename \<noteq> []" and "files w filename = Some (info, Some f)"
  shows "LoadEmbeddedArt L w filename data =
           (Success, (case LoadEmbeddedArt_stages L f data of Inl d \<Rightarrow> d | Inr d \<Rightarrow> d),
            w\<lparr>events := events w @ [Opened filename]\<rparr>)"
  using assms
  by (simp add: LoadEmbeddedArt_def exists_file_def GetFileRef_def split: sum.splits)

section \<open>Loading embedded art\<close>

text \<open>
  C8. \<^verbatim>\<open>LoadEmbeddedArt\<close> on a file that opens returns Success, whatever the file holds and
  whatever its class. When the file holds no front cover (\<^const>\<open>no_front_cover\<close>) and the
  caller's buffer is empty, the buffer comes back empty.
\<close>

theorem LoadEmbeddedArt_no_cover_is_success:
  assumes "filename \<noteq> []" and "files w filename = Some (info, Some f)"
  shows "fst (LoadEmbeddedArt L w filename data) = Success
         \<and> (no_front_cover L f \<longrightarrow> fst (snd (LoadEmbeddedArt L w filename [])) = [])"
  using LoadEmbeddedArt_stages_none [of L f]
  by (auto simp: LoadEmbeddedArt_opened [OF assms])

theorem LoadEmbeddedArt_no_cover_is_success_witness:
  "''a.mp3'' \<noteq> [] \<and> no_front_cover example_Collaborators example_MPEG
   \<and> LoadEmbeddedArt example_Collaborators example_World ''a.mp3'' []
       = (Success, [], example_World\<lparr>events := [Opened ''a.mp3'']\<rparr>)
   \<and> no_front_cover example_Collaborators example_FLAC
   \<and> fst (LoadEmbeddedArt example_Collaborators example_World ''a.flac'' []) = Success
   \<and> fst (snd (LoadEmbeddedArt example_Collaborators example_World ''a.flac'' [])) = []"
proof -
  have n1: "no_front_cover example_Collaborators example_MPEG"
    by code_simp
  have n2: "no_front_cover example_Collaborators example_FLAC"
    by code_simp
  have ne1: "''a.mp3'' \<noteq> []" and ne2: "''a.flac'' \<noteq> []" by simp_all
  have w: "LoadEmbeddedArt example_Collaborators example_World ''a.mp3'' []
             = (fst (LoadEmbeddedArt example_Collaborators example_World ''a.mp3'' []),
                fst (snd (LoadEmbeddedArt example_Collaborators example_World ''a.mp3'' [])),
                example_World\<lparr>events := [Opened ''a.mp3'']\<rparr>)"
    by (simp add: LoadEmbeddedArt_opened [OF ne1 mp3_files]) (simp add: example_World_def)
  from LoadEmbeddedArt_no_cover_is_success [OF ne1 mp3_files, of example_Collaborators "[]"]
       LoadEmbeddedArt_no_cover_is_success [OF ne2 flac_files, of example_Collaborators "[]"]
       n1 n2 w
  show ?thesis
    by simp
qed

end
